theory Spec2Isabelle
  imports Complex_Main
begin

section \<open>Python values and the interpreter operations used by matmul.py\<close>

text \<open>
  The linear-system kernel is the module \<^verbatim>\<open>Assignment3/matmul.py\<close>, kept as the code
  object CPython 3.12 compiled from it. Read instruction by instruction, with the names,
  constants and docstrings the code object carries, the module is
  \<^verbatim>\<open>
  from typing import List, Union, get_args

  Numeric = Union[int, float, complex]

  def multiply(row1: List[Numeric], row2: List[Numeric]) -> Numeric:
      return sum(i * j for i, j in zip(row1, row2))

  def matrix_multiply(matrix1: List[List[Numeric]],
                      matrix2: List[List[Numeric]]) -> List[List[Numeric]]:
      checks = [
          (lambda matrix: hasattr(matrix, "__iter__"), ValueError, "Must have atleast 1 dim"),
          (lambda matrix: len(matrix) > 0, ValueError, "Must have atleast 1 row"),
          (lambda matrix: all(hasattr(row, "__iter__") for row in matrix),
           ValueError, "Must have atleast 2 dims"),
          (lambda matrix: len(matrix[0]) > 0, ValueError, "Must have atleast 1 col"),
          (lambda matrix: all(len(row) == len(matrix[0]) for row in matrix),
           ValueError, "Rows must have same len"),
          (lambda matrix: all(all(isinstance(i, get_args(Numeric)) for i in row)
                              for row in matrix),
           TypeError, "Must contain only numeric data"),
      ]
      for check, error, message in checks:
          if not (check(matrix1) and check(matrix2)):
              raise error(message)
      if len(matrix1) != len(matrix2[0]):
          raise ValueError("Matrices cannot be multiplied")
      matrix2_transpose = [[row[i] for row in matrix2] for i in range(len(matrix2[0]))]
      resultant_matrix = [[0] * len(matrix2_transpose) for j in range(len(matrix1))]
      for i in range(len(matrix1)):
          for j in range(len(matrix2_transpose)):
              resultant_matrix[i][j] = multiply(matrix1[i], matrix2_transpose[j])
      return resultant_matrix
  \<close>
  Two places matter below. In the loop over \<^verbatim>\<open>checks\<close> the instructions are: call
  \<^verbatim>\<open>check\<close> on local 0 (\<^verbatim>\<open>matrix1\<close>), jump to the \<^verbatim>\<open>raise\<close> if false, call
  \<^verbatim>\<open>check\<close> on local 1 (\<^verbatim>\<open>matrix2\<close>), jump to the \<^verbatim>\<open>raise\<close> if false, next
  iteration. After the loop the test is \<^verbatim>\<open>len\<close> of local 0 against \<^verbatim>\<open>len\<close> of local 1
  subscripted by the constant 0, compared with \<^verbatim>\<open>!=\<close>. The docstring of
  \<^verbatim>\<open>matrix_multiply\<close> lists its checks as "Matrices have atleast 1 dimension", ...,
  "Datatypes are numeric", "Matrices have dimensions of form n x k and k x m", and
  promises "the product of the two matrices" when they hold; the docstring of
  \<^verbatim>\<open>multiply\<close> says "The rows are guaranteed to have same dimensions, so no checks are
  performed."

  Numbers are Python's three numeric kinds. A Python \<^verbatim>\<open>int\<close> is unbounded, so it is an
  \<^typ>\<open>int\<close>. A \<^verbatim>\<open>float\<close> is idealised as a \<^typ>\<open>real\<close> and a \<^verbatim>\<open>complex\<close> as a
  \<^typ>\<open>complex\<close>: the rounding of float results, infinities and NaN are outside the
  model, none of which raises; the one exception that arithmetic on numbers raises, the
  \<open>OverflowError\<close> of converting an \<^verbatim>\<open>int\<close> to a \<^verbatim>\<open>float\<close>, is inside it. A
  \<^verbatim>\<open>bool\<close> is an \<^verbatim>\<open>int\<close> subclass and is represented by \<open>NInt 0\<close> or \<open>NInt 1\<close>.
\<close>

datatype num = NInt int | NFloat real | NComplex complex

text \<open>
  The Python values of the model: a number, a string, \<^verbatim>\<open>None\<close>, or a list of such
  values. A tuple behaves like a list in every operation used here. Other iterables
  (dictionaries, sets, generators, arrays of a numeric library) are not modelled.
\<close>

datatype pyval = PNum num | PStr string | PNone | PList "pyval list"

text \<open>
  Exceptions are values. \<open>ValueError\<close> and \<open>TypeError\<close> with the messages of
  \<^verbatim>\<open>matmul.py\<close> come from its \<^verbatim>\<open>raise\<close> statements; the interpreter itself raises
  \<open>TypeError\<close> and \<open>IndexError\<close> from \<^verbatim>\<open>len\<close>, iteration, subscription and
  arithmetic on operands that are not numbers (their message is abbreviated: CPython's
  text also names the operand type), and \<open>OverflowError\<close> from arithmetic that converts
  an \<^verbatim>\<open>int\<close> to a \<^verbatim>\<open>float\<close>.
\<close>

datatype exn = ValueError string | TypeError string | IndexError string | OverflowError string

definition ebind :: "exn + 'a \<Rightarrow> ('a \<Rightarrow> exn + 'b) \<Rightarrow> exn + 'b" where
  "ebind m f = (case m of Inl e \<Rightarrow> Inl e | Inr x \<Rightarrow> f x)"

text \<open>
  Python's numeric tower: the result has the wider of the two kinds, and an \<^verbatim>\<open>int\<close>
  that meets a \<^verbatim>\<open>float\<close> or a \<^verbatim>\<open>complex\<close> is converted to a \<^verbatim>\<open>float\<close> first. The
  conversion rounds to the nearest double, ties to even, and raises \<open>OverflowError\<close> when
  the rounded magnitude would be \<open>2 ^ 1024\<close>, that is for every \<^verbatim>\<open>int\<close> of magnitude at
  least \<open>2 ^ 1024 - 2 ^ 970\<close>. The rounding itself is idealised (the value converted is the
  integer's own); the exception is not.
\<close>

definition int_to_float :: "int \<Rightarrow> exn + real" where
  "int_to_float n =
     (if \<bar>n\<bar> < 2 ^ 1024 - 2 ^ 970 then Inr (of_int n)
      else Inl (OverflowError ''int too large to convert to float''))"

text \<open>
  \<^verbatim>\<open>x * y\<close> and \<^verbatim>\<open>x + y\<close> on numbers. Two \<^verbatim>\<open>int\<close>s never raise; two numbers that are
  \<^verbatim>\<open>float\<close> or \<^verbatim>\<open>complex\<close> never raise either (a result too large is an infinity in
  Python, here a real); a mixed pair raises when the conversion does.
\<close>

fun num_mul :: "num \<Rightarrow> num \<Rightarrow> exn + num" where
  "num_mul (NInt a) (NInt b) = Inr (NInt (a * b))"
| "num_mul (NInt a) (NFloat b) = ebind (int_to_float a) (\<lambda>x. Inr (NFloat (x * b)))"
| "num_mul (NInt a) (NComplex b) = ebind (int_to_float a) (\<lambda>x. Inr (NComplex (of_real x * b)))"
| "num_mul (NFloat a) (NInt b) = ebind (int_to_float b) (\<lambda>y. Inr (NFloat (a * y)))"
| "num_mul (NFloat a) (NFloat b) = Inr (NFloat (a * b))"
| "num_mul (NFloat a) (NComplex b) = Inr (NComplex (of_real a * b))"
| "num_mul (NComplex a) (NInt b) = ebind (int_to_float b) (\<lambda>y. Inr (NComplex (a * of_real y)))"
| "num_mul (NComplex a) (NFloat b) = Inr (NComplex (a * of_real b))"
| "num_mul (NComplex a) (NComplex b) = Inr (NComplex (a * b))"

fun num_add :: "num \<Rightarrow> num \<Rightarrow> exn + num" where
  "num_add (NInt a) (NInt b) = Inr (NInt (a + b))"
| "num_add (NInt a) (NFloat b) = ebind (int_to_float a) (\<lambda>x. Inr (NFloat (x + b)))"
| "num_add (NInt a) (NComplex b) = ebind (int_to_float a) (\<lambda>x. Inr (NComplex (of_real x + b)))"
| "num_add (NFloat a) (NInt b) = ebind (int_to_float b) (\<lambda>y. Inr (NFloat (a + y)))"
| "num_add (NFloat a) (NFloat b) = Inr (NFloat (a + b))"
| "num_add (NFloat a) (NComplex b) = Inr (NComplex (of_real a + b))"
| "num_add (NComplex a) (NInt b) = ebind (int_to_float b) (\<lambda>y. Inr (NComplex (a + of_real y)))"
| "num_add (NComplex a) (NFloat b) = Inr (NComplex (a + of_real b))"
| "num_add (NComplex a) (NComplex b) = Inr (NComplex (a + b))"

text \<open>A number, or the exception raised in computing it, as a Python result.\<close>

definition as_value :: "exn + num \<Rightarrow> exn + pyval" where
  "as_value r = (case r of Inl e \<Rightarrow> Inl e | Inr n \<Rightarrow> Inr (PNum n))"

text \<open>
  \<^verbatim>\<open>x * y\<close>: numbers multiply; a string or a list times an \<^verbatim>\<open>int\<close> (on either side)
  is repeated, not at all for a count below one; everything else raises \<open>TypeError\<close>.
  The limits that memory and the index type put on a repetition are not modelled.
\<close>

fun py_mul :: "pyval \<Rightarrow> pyval \<Rightarrow> exn + pyval" where
  "py_mul (PNum a) (PNum b) = as_value (num_mul a b)"
| "py_mul (PStr s) (PNum (NInt n)) = Inr (PStr (concat (replicate (nat n) s)))"
| "py_mul (PNum (NInt n)) (PStr s) = Inr (PStr (concat (replicate (nat n) s)))"
| "py_mul (PList xs) (PNum (NInt n)) = Inr (PList (concat (replicate (nat n) xs)))"
| "py_mul (PNum (NInt n)) (PList xs) = Inr (PList (concat (replicate (nat n) xs)))"
| "py_mul a b = Inl (TypeError ''unsupported operand type(s) for *'')"

text \<open>
  \<^verbatim>\<open>x + y\<close>: numbers add, two strings or two lists are concatenated; everything else
  raises \<open>TypeError\<close>.
\<close>

fun py_add :: "pyval \<Rightarrow> pyval \<Rightarrow> exn + pyval" where
  "py_add (PNum a) (PNum b) = as_value (num_add a b)"
| "py_add (PStr s) (PStr t) = Inr (PStr (s @ t))"
| "py_add (PList xs) (PList ys) = Inr (PList (xs @ ys))"
| "py_add a b = Inl (TypeError ''unsupported operand type(s) for +'')"

text \<open>
  \<^verbatim>\<open>hasattr(x, "__iter__")\<close> holds of strings and lists. Iterating a string yields its
  characters as one-character strings.
\<close>

fun has_iter :: "pyval \<Rightarrow> bool" where
  "has_iter (PList xs) = True"
| "has_iter (PStr s) = True"
| "has_iter v = False"

fun py_iter :: "pyval \<Rightarrow> exn + pyval list" where
  "py_iter (PList xs) = Inr xs"
| "py_iter (PStr s) = Inr (map (\<lambda>c. PStr [c]) s)"
| "py_iter v = Inl (TypeError ''object is not iterable'')"

fun py_len :: "pyval \<Rightarrow> exn + nat" where
  "py_len (PList xs) = Inr (length xs)"
| "py_len (PStr s) = Inr (length s)"
| "py_len v = Inl (TypeError ''object has no len()'')"

text \<open>
  \<^verbatim>\<open>x[i]\<close>. Every index in \<^verbatim>\<open>matmul.py\<close> is the literal \<^verbatim>\<open>0\<close> or comes from
  \<^verbatim>\<open>range\<close>, so it is a \<^typ>\<open>nat\<close>; an index past the end raises \<open>IndexError\<close>.
\<close>

fun py_getitem :: "pyval \<Rightarrow> nat \<Rightarrow> exn + pyval" where
  "py_getitem (PList xs) i =
     (if i < length xs then Inr (xs ! i) else Inl (IndexError ''list index out of range''))"
| "py_getitem (PStr s) i =
     (if i < length s then Inr (PStr [s ! i]) else Inl (IndexError ''string index out of range''))"
| "py_getitem v i = Inl (TypeError ''object is not subscriptable'')"

section \<open>multiply\<close>

text \<open>
  \<^verbatim>\<open>sum(i * j for i, j in pairs)\<close>: the generator is consumed one pair at a time, the
  product is formed and added to the running total, which starts at the \<^verbatim>\<open>int\<close> 0. The
  first failing operation ends the call. (On floats CPython 3.12 adds with a compensated
  summation; with floats idealised as reals the total is the same.)
\<close>

fun sum_products :: "pyval \<Rightarrow> (pyval \<times> pyval) list \<Rightarrow> exn + pyval" where
  "sum_products acc [] = Inr acc"
| "sum_products acc ((i, j) # ps) =
     ebind (py_mul i j) (\<lambda>p. ebind (py_add acc p) (\<lambda>acc'. sum_products acc' ps))"

text \<open>\<^verbatim>\<open>zip\<close> takes an iterator of each argument at once and stops with the shorter one.\<close>

definition multiply :: "pyval \<Rightarrow> pyval \<Rightarrow> exn + pyval" where
  "multiply row1 row2 =
     ebind (py_iter row1) (\<lambda>xs. ebind (py_iter row2) (\<lambda>ys.
       sum_products (PNum (NInt 0)) (zip xs ys)))"

text \<open>A Python list of numbers.\<close>

definition num_list :: "num list \<Rightarrow> pyval" where
  "num_list xs = PList (map PNum xs)"

text \<open>
  \<^verbatim>\<open>sum\<close> on numbers: the items are produced one at a time, each may raise when it is
  produced, and each is added to the running total.
\<close>

fun sum_nums :: "num \<Rightarrow> (exn + num) list \<Rightarrow> exn + num" where
  "sum_nums acc [] = Inr acc"
| "sum_nums acc (p # ps) =
     ebind p (\<lambda>x. ebind (num_add acc x) (\<lambda>acc'. sum_nums acc' ps))"

text \<open>
  The expression of the specification, \<^verbatim>\<open>sum(a[i]*b[i] for i in range(len(a)))\<close>, on lists
  of numbers; \<open>b\<close> must be at least as long as \<open>a\<close> for every \<^verbatim>\<open>b[i]\<close> to exist.
\<close>

definition sum_by_index :: "num list \<Rightarrow> num list \<Rightarrow> exn + num" where
  "sum_by_index a b = sum_nums (NInt 0) (map (\<lambda>i. num_mul (a ! i) (b ! i)) [0..<length a])"

section \<open>matrix_multiply\<close>

text \<open>\<^verbatim>\<open>isinstance(i, get_args(Numeric))\<close>, that is \<^verbatim>\<open>isinstance(i, (int, float, complex))\<close>.\<close>

fun is_numeric :: "pyval \<Rightarrow> bool" where
  "is_numeric (PNum n) = True"
| "is_numeric v = False"

text \<open>
  \<^verbatim>\<open>all(f(x) for x in xs)\<close>: the elements are tested in order, the first false test ends
  the scan, and so does the first test that raises.
\<close>

fun all_gen :: "('a \<Rightarrow> exn + bool) \<Rightarrow> 'a list \<Rightarrow> exn + bool" where
  "all_gen f [] = Inr True"
| "all_gen f (x # xs) = ebind (f x) (\<lambda>b. if b then all_gen f xs else Inr False)"

text \<open>
  The six \<^verbatim>\<open>lambda matrix: ...\<close> of the list \<^verbatim>\<open>checks\<close>, in the order of the list. A
  check returns its truth value or the exception the interpreter raises inside it.
\<close>

definition check_1_dim :: "pyval \<Rightarrow> exn + bool" where
  "check_1_dim matrix = Inr (has_iter matrix)"

definition check_1_row :: "pyval \<Rightarrow> exn + bool" where
  "check_1_row matrix = ebind (py_len matrix) (\<lambda>n. Inr (n > 0))"

definition check_2_dims :: "pyval \<Rightarrow> exn + bool" where
  "check_2_dims matrix =
     ebind (py_iter matrix) (\<lambda>rows. all_gen (\<lambda>row. Inr (has_iter row)) rows)"

definition check_1_col :: "pyval \<Rightarrow> exn + bool" where
  "check_1_col matrix =
     ebind (py_getitem matrix 0) (\<lambda>row0. ebind (py_len row0) (\<lambda>n. Inr (n > 0)))"

definition check_same_len :: "pyval \<Rightarrow> exn + bool" where
  "check_same_len matrix =
     ebind (py_iter matrix) (\<lambda>rows.
       all_gen (\<lambda>row.
         ebind (py_len row) (\<lambda>a.
         ebind (py_getitem matrix 0) (\<lambda>row0.
         ebind (py_len row0) (\<lambda>b. Inr (a = b))))) rows)"

definition check_numeric :: "pyval \<Rightarrow> exn + bool" where
  "check_numeric matrix =
     ebind (py_iter matrix) (\<lambda>rows.
       all_gen (\<lambda>row.
         ebind (py_iter row) (\<lambda>entries. all_gen (\<lambda>i. Inr (is_numeric i)) entries)) rows)"

definition checks :: "((pyval \<Rightarrow> exn + bool) \<times> (string \<Rightarrow> exn) \<times> string) list" where
  "checks =
     [(check_1_dim, ValueError, ''Must have atleast 1 dim''),
      (check_1_row, ValueError, ''Must have atleast 1 row''),
      (check_2_dims, ValueError, ''Must have atleast 2 dims''),
      (check_1_col, ValueError, ''Must have atleast 1 col''),
      (check_same_len, ValueError, ''Rows must have same len''),
      (check_numeric, TypeError, ''Must contain only numeric data'')]"

text \<open>
  The loop \<^verbatim>\<open>for check, error, message in checks\<close>: each check is applied to
  \<^verbatim>\<open>matrix1\<close> and, when that holds, to \<^verbatim>\<open>matrix2\<close>; the first one that does not hold
  of both raises \<^verbatim>\<open>error(message)\<close>.
\<close>

fun run_checks ::
  "((pyval \<Rightarrow> exn + bool) \<times> (string \<Rightarrow> exn) \<times> string) list \<Rightarrow> pyval \<Rightarrow> pyval \<Rightarrow> exn + unit"
where
  "run_checks [] matrix1 matrix2 = Inr ()"
| "run_checks ((check, error, message) # rest) matrix1 matrix2 =
     ebind (check matrix1) (\<lambda>ok1.
       if \<not> ok1 then Inl (error message)
       else ebind (check matrix2) (\<lambda>ok2.
         if \<not> ok2 then Inl (error message)
         else run_checks rest matrix1 matrix2))"

text \<open>A list comprehension \<^verbatim>\<open>[f(x) for x in xs]\<close> whose body may raise.\<close>

fun list_comp :: "('a \<Rightarrow> exn + 'b) \<Rightarrow> 'a list \<Rightarrow> exn + 'b list" where
  "list_comp f [] = Inr []"
| "list_comp f (x # xs) = ebind (f x) (\<lambda>y. ebind (list_comp f xs) (\<lambda>ys. Inr (y # ys)))"

text \<open>A \<^verbatim>\<open>for\<close> loop over a list, threading the variables it assigns.\<close>

fun for_loop :: "'a list \<Rightarrow> ('a \<Rightarrow> 's \<Rightarrow> exn + 's) \<Rightarrow> 's \<Rightarrow> exn + 's" where
  "for_loop [] body s = Inr s"
| "for_loop (x # xs) body s = ebind (body x s) (\<lambda>s'. for_loop xs body s')"

text \<open>
  \<^verbatim>\<open>[[row[i] for row in matrix2] for i in range(len(matrix2[0]))]\<close>, a Python list of
  Python lists.
\<close>

definition transpose_of :: "pyval \<Rightarrow> exn + pyval list list" where
  "transpose_of matrix2 =
     ebind (py_getitem matrix2 0) (\<lambda>row0.
     ebind (py_len row0) (\<lambda>m.
       list_comp (\<lambda>i.
         ebind (py_iter matrix2) (\<lambda>rows. list_comp (\<lambda>row. py_getitem row i) rows))
         [0..<m]))"

text \<open>
  The statement \<^verbatim>\<open>resultant_matrix[i][j] = multiply(matrix1[i], matrix2_transpose[j])\<close>.
  The right-hand side is evaluated first. \<^verbatim>\<open>matrix2_transpose\<close> and
  \<^verbatim>\<open>resultant_matrix\<close> are lists built by the function itself, \<open>j\<close> ranges over
  \<^verbatim>\<open>range(len(matrix2_transpose))\<close> and \<open>i\<close> over \<^verbatim>\<open>range(len(matrix1))\<close>, the number
  of rows of \<^verbatim>\<open>resultant_matrix\<close>, each of \<^verbatim>\<open>len(matrix2_transpose)\<close> entries: these
  three subscriptions are in range. The rows of \<^verbatim>\<open>resultant_matrix\<close> are distinct list
  objects, so the store changes row \<open>i\<close> only.
\<close>

definition store_entry ::
  "pyval \<Rightarrow> pyval list list \<Rightarrow> nat \<Rightarrow> nat \<Rightarrow> pyval list list \<Rightarrow> exn + pyval list list"
where
  "store_entry matrix1 matrix2_transpose i j resultant_matrix =
     ebind (py_getitem matrix1 i) (\<lambda>row1.
     ebind (multiply row1 (PList (matrix2_transpose ! j))) (\<lambda>v.
       Inr (resultant_matrix[i := (resultant_matrix ! i)[j := v]])))"

definition matrix_multiply :: "pyval \<Rightarrow> pyval \<Rightarrow> exn + pyval" where
  "matrix_multiply matrix1 matrix2 =
     ebind (run_checks checks matrix1 matrix2) (\<lambda>_.
     ebind (py_len matrix1) (\<lambda>n.
     ebind (py_getitem matrix2 0) (\<lambda>row0.
     ebind (py_len row0) (\<lambda>m.
       if n \<noteq> m then Inl (ValueError ''Matrices cannot be multiplied'')
       else
         ebind (transpose_of matrix2) (\<lambda>matrix2_transpose.
         ebind (py_len matrix1) (\<lambda>n1.
           let resultant_matrix =
                 map (\<lambda>j. replicate (length matrix2_transpose) (PNum (NInt 0))) [0..<n1]
           in
             ebind (py_len matrix1) (\<lambda>n2.
             ebind
               (for_loop [0..<n2]
                  (\<lambda>i. for_loop [0..<length matrix2_transpose]
                          (store_entry matrix1 matrix2_transpose i))
                  resultant_matrix)
               (\<lambda>resultant_matrix'. Inr (PList (map PList resultant_matrix'))))))))))"

text \<open>A Python list of lists of numbers.\<close>

definition num_matrix :: "num list list \<Rightarrow> pyval" where
  "num_matrix rows = PList (map num_list rows)"

definition int_matrix :: "int list list \<Rightarrow> pyval" where
  "int_matrix rows = num_matrix (map (map NInt) rows)"

section \<open>Notions used in the statements\<close>

text \<open>What iterating a value yields; nothing for a value that cannot be iterated.\<close>

fun items :: "pyval \<Rightarrow> pyval list" where
  "items (PList xs) = xs"
| "items (PStr s) = map (\<lambda>c. PStr [c]) s"
| "items v = []"

text \<open>
  A check holds of a matrix when it returns \<^verbatim>\<open>True\<close> and fails when it returns
  \<^verbatim>\<open>False\<close>; it does neither when the interpreter raises inside it.
\<close>

definition holds :: "(pyval \<Rightarrow> exn + bool) \<Rightarrow> pyval \<Rightarrow> bool" where
  "holds check matrix \<longleftrightarrow> check matrix = Inr True"

definition fails :: "(pyval \<Rightarrow> exn + bool) \<Rightarrow> pyval \<Rightarrow> bool" where
  "fails check matrix \<longleftrightarrow> check matrix = Inr False"

definition all_hold :: "(pyval \<Rightarrow> exn + bool) list \<Rightarrow> pyval \<Rightarrow> bool" where
  "all_hold cs matrix \<longleftrightarrow> list_all (\<lambda>check. holds check matrix) cs"

text \<open>An \<open>n \<times> k\<close> table with \<open>n > 0\<close> and \<open>k > 0\<close>.\<close>

definition rectangular :: "'a list list \<Rightarrow> bool" where
  "rectangular rows \<longleftrightarrow>
     rows \<noteq> [] \<and> hd rows \<noteq> [] \<and> list_all (\<lambda>row. length row = length (hd rows)) rows"


definition column :: "'a list list \<Rightarrow> nat \<Rightarrow> 'a list" where
  "column rows j = map (\<lambda>row. row ! j) rows"

text \<open>
  What \<open>matrix_multiply\<close> puts into \<^verbatim>\<open>resultant_matrix\<close>: for each row of the first
  table and each column index of the second, the products of the row with that column,
  summed over as many entries as both have. The entries are computed row by row, and the
  first one that raises ends the computation.
\<close>

definition computed_product :: "num list list \<Rightarrow> num list list \<Rightarrow> exn + num list list" where
  "computed_product A B =
     list_comp
       (\<lambda>row. list_comp (\<lambda>j. sum_by_index (take (length B) row) (column B j))
          [0..<length (hd B)]) A"

text \<open>Numbers of kind \<^verbatim>\<open>int\<close>.\<close>

fun is_int :: "num \<Rightarrow> bool" where
  "is_int (NInt n) = True"
| "is_int x = False"

section \<open>The circuit model and the MNA solver\<close>

text \<open>
  The simulator's \<^verbatim>\<open>ElementType\<close>, \<^verbatim>\<open>Element\<close> and \<^verbatim>\<open>Circuit\<close> classes are described by
  the notebook \<^verbatim>\<open>spice_sim/a2-spice/README.ipynb\<close>, but their code is not among the
  source files. Every definition of this section is therefore written from the
  specification. Voltages, currents and matrix entries are floating-point numbers there;
  here they are \<^typ>\<open>real\<close>, so "singular" is a determinant equal to zero, and a
  resistance of zero gives the conductance \<open>1 / 0 = 0\<close> of HOL where the program would
  stop with a division error.
\<close>

text \<open>Modelled from the spec: the missing \<^verbatim>\<open>ElementType\<close> enumeration, "closed set
  {Resistor, CurrentSource, VoltageSource}".\<close>

datatype ElementKind = Resistor | CurrentSource | VoltageSource

text \<open>Modelled from the spec: the missing \<^verbatim>\<open>Element\<close> class, "kind, name (string
  identifier), terminal-A node name, terminal-B node name, numeric value".\<close>

record Element =
  kind :: ElementKind
  name :: string
  terminal_a :: string
  terminal_b :: string
  numeric_value :: real

text \<open>Modelled from the spec: the missing error kinds of the solver, "UndefinedNodeError:
  an Element references a node never indexed" and "SingularSystemError: coefficient
  matrix is not invertible".\<close>

datatype circuit_error = UndefinedNodeError string | SingularSystemError

text \<open>Modelled from the spec: the missing ground constant, "by convention node name
  \<^verbatim>\<open>"GND"\<close> is the reference and never receives its own unknown".\<close>

definition GND :: string where
  "GND = ''GND''"

text \<open>Modelled from the spec: the missing \<^verbatim>\<open>Circuit\<close> class, "ordered list of Elements; a
  derived mapping from node name to a zero-based equation index; a derived mapping from
  voltage-source name to an extra equation index appended after all node equations; the
  assembled augmented matrix". The two mappings keep their insertion order.\<close>

record Circuit =
  elements :: "Element list"
  node_index :: "(string \<times> nat) list"
  source_index :: "(string \<times> nat) list"
  matrix :: "real list list"

text \<open>Modelled from the spec: one step of the missing \<^verbatim>\<open>assign_indices\<close>, "for each
  terminal node not yet seen and not equal to ground, assigns the next unused integer
  index in first-encounter order".\<close>

definition add_node :: "string \<Rightarrow> (string \<times> nat) list \<Rightarrow> (string \<times> nat) list" where
  "add_node n idx =
     (if n = GND \<or> map_of idx n \<noteq> None then idx else idx @ [(n, length idx)])"

text \<open>Modelled from the spec: the walk of the missing \<^verbatim>\<open>assign_indices\<close>, "walks the
  Element list once", terminal A before terminal B.\<close>

fun assign_nodes :: "Element list \<Rightarrow> (string \<times> nat) list \<Rightarrow> (string \<times> nat) list" where
  "assign_nodes [] idx = idx"
| "assign_nodes (e # es) idx =
     assign_nodes es (add_node (terminal_b e) (add_node (terminal_a e) idx))"

text \<open>Modelled from the spec: the missing \<^verbatim>\<open>assign_indices\<close>, "for each VoltageSource
  element, assigns the next unused branch index (continuing the same counter space,
  offset after all node indices)", in the order of the element list.\<close>

definition assign_indices :: "Element list \<Rightarrow> Circuit" where
  "assign_indices es =
     (let nodes = assign_nodes es [];
          sources = map name (filter (\<lambda>e. kind e = VoltageSource) es)
      in \<lparr>elements = es, node_index = nodes,
          source_index = zip sources [length nodes..<length nodes + length sources],
          matrix = []\<rparr>)"

text \<open>Modelled from the spec: the node lookup of the missing \<^verbatim>\<open>generate_eqns\<close>. Ground
  has no equation (\<open>None\<close>); "any element referencing a node name that was never assigned
  an index other than ground is a structural input error (undefined node)".\<close>

definition lookup_node :: "(string \<times> nat) list \<Rightarrow> string \<Rightarrow> circuit_error + nat option" where
  "lookup_node idx n =
     (if n = GND then Inr None
      else case map_of idx n of
             None \<Rightarrow> Inl (UndefinedNodeError n)
           | Some i \<Rightarrow> Inr (Some i))"

text \<open>Modelled from the spec: the matrix update of the missing \<^verbatim>\<open>generate_eqns\<close>, "adds"
  a value to one entry of the augmented matrix. Rows and columns come from the two index
  mappings, so they are inside the \<open>(N+V) \<times> (N+V+1)\<close> matrix.\<close>

definition add_entry :: "nat \<Rightarrow> nat \<Rightarrow> real \<Rightarrow> real list list \<Rightarrow> real list list" where
  "add_entry r c v M = M[r := (M ! r)[c := M ! r ! c + v]]"

text \<open>Modelled from the spec: the same update of the missing \<^verbatim>\<open>generate_eqns\<close> when a
  row or a column may belong to ground: "ground terminals are skipped (no equation row
  to update)", "ground terminals contribute a zero coefficient for that side".\<close>

fun add_at :: "nat option \<Rightarrow> nat option \<Rightarrow> real \<Rightarrow> real list list \<Rightarrow> real list list" where
  "add_at (Some r) (Some c) v M = add_entry r c v M"
| "add_at r c v M = M"

text \<open>Modelled from the spec: the stamps of the missing \<^verbatim>\<open>generate_eqns\<close>.
  Resistor, \<open>g = 1/R\<close>: "adds \<open>+g\<close> to the diagonal entries for each non-ground terminal's
  own equation, and \<open>-g\<close> to the cross term between A's and B's equations".
  CurrentSource: "subtracts I from A's row in the constant column and adds I to B's row
  constant column". VoltageSource with branch index \<open>e\<close>: "adds \<open>+1\<close> to A's KCL row at
  column \<open>e\<close> and \<open>-1\<close> to B's KCL row at column \<open>e\<close>, and writes the defining equation at
  row \<open>e\<close>: \<open>+1\<close> at column A's index, \<open>-1\<close> at column B's index, and V in the constant
  column".\<close>

definition stamp :: "Circuit \<Rightarrow> Element \<Rightarrow> real list list \<Rightarrow> circuit_error + real list list" where
  "stamp c e M =
     (case lookup_node (node_index c) (terminal_a e) of
        Inl err \<Rightarrow> Inl err
      | Inr a \<Rightarrow>
     (case lookup_node (node_index c) (terminal_b e) of
        Inl err \<Rightarrow> Inl err
      | Inr b \<Rightarrow>
     (let last_col = Some (length (node_index c) + length (source_index c)) in
      case kind e of
        Resistor \<Rightarrow>
          (let g = 1 / numeric_value e in
           Inr (add_at b a (- g) (add_at a b (- g) (add_at b b g (add_at a a g M)))))
      | CurrentSource \<Rightarrow>
          Inr (add_at b last_col (numeric_value e) (add_at a last_col (- numeric_value e) M))
      | VoltageSource \<Rightarrow>
          (let row = map_of (source_index c) (name e) in
           Inr (add_at row last_col (numeric_value e)
                 (add_at row b (- 1) (add_at row a 1
                   (add_at b row (- 1) (add_at a row 1 M)))))))))"

text \<open>Modelled from the spec: the loop of the missing \<^verbatim>\<open>generate_eqns\<close> over the element
  list; the first undefined node ends it.\<close>

fun stamp_all :: "Circuit \<Rightarrow> Element list \<Rightarrow> real list list \<Rightarrow> circuit_error + real list list" where
  "stamp_all c [] M = Inr M"
| "stamp_all c (e # es) M =
     (case stamp c e M of Inl err \<Rightarrow> Inl err | Inr M' \<Rightarrow> stamp_all c es M')"

text \<open>Modelled from the spec: the missing \<^verbatim>\<open>generate_eqns\<close>, "builds the augmented matrix
  of shape \<open>(N+V) \<times> (N+V+1)\<close>, initialized to zero".\<close>

definition generate_eqns :: "Circuit \<Rightarrow> circuit_error + Circuit" where
  "generate_eqns c =
     (let n = length (node_index c) + length (source_index c) in
      case stamp_all c (elements c) (replicate n (replicate (Suc n) 0)) of
        Inl err \<Rightarrow> Inl err
      | Inr M \<Rightarrow> Inr (c\<lparr>matrix := M\<rparr>))"

text \<open>Modelled from the spec: deleting one row or one column, for the determinant that
  the missing \<^verbatim>\<open>solve\<close> tests ("zero or near-zero determinant").\<close>

definition without_nth :: "nat \<Rightarrow> 'a list \<Rightarrow> 'a list" where
  "without_nth i xs = take i xs @ drop (Suc i) xs"

text \<open>Modelled from the spec: the determinant tested by the missing \<^verbatim>\<open>solve\<close>, expanded
  along the first row.\<close>

fun det :: "real list list \<Rightarrow> real" where
  "det [] = 1"
| "det (row # rows) =
     sum_list (map (\<lambda>j. (- 1) ^ j * (row ! j) * det (map (without_nth j) rows)) [0..<length row])"

text \<open>Modelled from the spec: the cofactors of the "matrix inverse" of the missing
  \<^verbatim>\<open>solve\<close>.\<close>

definition cofactor :: "real list list \<Rightarrow> nat \<Rightarrow> nat \<Rightarrow> real" where
  "cofactor G i j = (- 1) ^ (i + j) * det (map (without_nth j) (without_nth i G))"

text \<open>Modelled from the spec: the "matrix inverse" \<open>G\<inverse>\<close> of the missing \<^verbatim>\<open>solve\<close>, the
  transposed cofactors over the determinant.\<close>

definition mat_inverse :: "real list list \<Rightarrow> real list list" where
  "mat_inverse G =
     map (\<lambda>i. map (\<lambda>j. cofactor G j i / det G) [0..<length G]) [0..<length G]"

text \<open>Modelled from the spec: the product of the missing \<^verbatim>\<open>solve\<close>, "matrix inverse
  applied to the constant column".\<close>

definition mat_vec :: "real list list \<Rightarrow> real list \<Rightarrow> real list" where
  "mat_vec A v = map (\<lambda>row. sum_list (map (\<lambda>(a, x). a * x) (zip row v))) A"

text \<open>Modelled from the spec: the coefficient sub-matrix of the missing \<^verbatim>\<open>solve\<close>, "all
  columns except the last".\<close>

definition coefficients :: "Circuit \<Rightarrow> real list list" where
  "coefficients c = map butlast (matrix c)"

text \<open>Modelled from the spec: the constant column of the missing \<^verbatim>\<open>solve\<close>, "the last
  column holds the right-hand side".\<close>

definition constants :: "Circuit \<Rightarrow> real list" where
  "constants c = map last (matrix c)"

text \<open>Modelled from the spec: the missing \<^verbatim>\<open>solve\<close>, "checks the coefficient sub-matrix
  for singularity; if singular, fails with a SingularSystem error and does not attempt to
  solve. Otherwise computes \<open>x = G\<inverse> I\<close> and splits the result vector: the first N entries
  become the node-to-voltage mapping; the remaining V entries become the
  voltage-source-name-to-current mapping, in the same order voltage sources were assigned
  branch indices".\<close>

definition solve ::
  "Circuit \<Rightarrow> circuit_error + (string \<times> real) list \<times> (string \<times> real) list" where
  "solve c =
     (let G = coefficients c; I = constants c in
      if det G = 0 then Inl SingularSystemError
      else
        let x = mat_vec (mat_inverse G) I; n = length (node_index c) in
        Inr (zip (map fst (node_index c)) (take n x),
             zip (map fst (source_index c)) (drop n x)))"

text \<open>Modelled from the spec: the missing pipeline around \<^verbatim>\<open>solve\<close>, "parsed elements,
  graph/index assignment, matrix assembly, singularity check, solve, result maps".\<close>

definition simulate ::
  "Element list \<Rightarrow> circuit_error + (string \<times> real) list \<times> (string \<times> real) list" where
  "simulate es =
     (case generate_eqns (assign_indices es) of Inl err \<Rightarrow> Inl err | Inr c \<Rightarrow> solve c)"

text \<open>Modelled from the spec: Scenario A, the netlist of the notebook,
  \<^verbatim>\<open>Vs n1 GND dc 10; Is n2 GND dc 1; R1 n1 n2 2\<close>, as the parser would hand it over.\<close>

definition scenario_A :: "Element list" where
  "scenario_A =
     [\<lparr>kind = VoltageSource, name = ''Vs'', terminal_a = ''n1'', terminal_b = ''GND'',
        numeric_value = 10\<rparr>,
      \<lparr>kind = CurrentSource, name = ''Is'', terminal_a = ''n2'', terminal_b = ''GND'',
        numeric_value = 1\<rparr>,
      \<lparr>kind = Resistor, name = ''R1'', terminal_a = ''n1'', terminal_b = ''n2'',
        numeric_value = 2\<rparr>]"

text \<open>Modelled from the spec: Scenario C, "a single resistor between two non-ground nodes
  with no source".\<close>

definition scenario_C :: "Element list" where
  "scenario_C =
     [\<lparr>kind = Resistor, name = ''R1'', terminal_a = ''n1'', terminal_b = ''n2'',
        numeric_value = 2\<rparr>]"

text \<open>Modelled from the spec: the circuit that Scenario A assembles.\<close>

definition built_A :: Circuit where
  "built_A =
     \<lparr>elements = scenario_A, node_index = [(''n1'', 0), (''n2'', 1)],
      source_index = [(''Vs'', 2)],
      matrix = [[1 / 2, - (1 / 2), 1, 0], [- (1 / 2), 1 / 2, 0, - 1], [1, 0, 0, 10]]\<rparr>"

text \<open>Modelled from the spec: the circuit that Scenario C assembles.\<close>

definition built_C :: Circuit where
  "built_C =
     \<lparr>elements = scenario_C, node_index = [(''n1'', 0), (''n2'', 1)], source_index = [],
      matrix = [[1 / 2, - (1 / 2), 0], [- (1 / 2), 1 / 2, 0]]\<rparr>"

section \<open>Properties of multiply\<close>

lemma sum_products_nums:
  "sum_products (PNum acc) (zip (map PNum a) (map PNum b)) =
     as_value (sum_nums acc (map (\<lambda>(x, y). num_mul x y) (zip a b)))"
proof (induction a arbitrary: acc b)
  case Nil
  then show ?case by (simp add: as_value_def)
next
  case (Cons x a)
  show ?case
  proof (cases b)
    case Nil
    then show ?thesis by (simp add: as_value_def)
  next
    case (Cons y b')
    show ?thesis
      unfolding Cons
      by (cases "num_mul x y"; cases "num_add acc (projr (num_mul x y))")
        (simp_all add: ebind_def as_value_def Cons.IH)
  qed
qed

lemma zip_by_index:
  "zip a b = map (\<lambda>i. (a ! i, b ! i)) [0..<min (length a) (length b)]"
  by (rule nth_equalityI) simp_all

lemma sum_by_index_take:
  "sum_by_index (take (length b) a) b =
     sum_nums (NInt 0) (map (\<lambda>i. num_mul (a ! i) (b ! i)) [0..<min (length a) (length b)])"
proof -
  have "map (\<lambda>i. num_mul (take (length b) a ! i) (b ! i)) [0..<length (take (length b) a)] =
        map (\<lambda>i. num_mul (a ! i) (b ! i)) [0..<min (length a) (length b)]"
    by (rule map_cong) (simp_all add: min.commute)
  then show ?thesis by (simp only: sum_by_index_def)
qed

lemma multiply_nums:
  "multiply (num_list a) (num_list b) = as_value (sum_by_index (take (length b) a) b)"
proof -
  have "map (\<lambda>(x, y). num_mul x y) (zip a b) =
        map (\<lambda>i. num_mul (a ! i) (b ! i)) [0..<min (length a) (length b)]"
    by (subst zip_by_index) simp
  then show ?thesis
    by (simp add: multiply_def num_list_def ebind_def sum_products_nums sum_by_index_take)
qed



lemma num_mul_raises:
  "num_mul x y = Inl e \<Longrightarrow> e = OverflowError ''int too large to convert to float''"
  by (cases x; cases y) (auto simp: int_to_float_def ebind_def split: if_splits)

lemma num_add_raises:
  "num_add x y = Inl e \<Longrightarrow> e = OverflowError ''int too large to convert to float''"
  by (cases x; cases y) (auto simp: int_to_float_def ebind_def split: if_splits)

lemma sum_nums_raises:
  assumes "sum_nums acc ps = Inl e"
    and "\<And>p e'. p \<in> set ps \<Longrightarrow> p = Inl e' \<Longrightarrow> e' = OverflowError ''int too large to convert to float''"
  shows "e = OverflowError ''int too large to convert to float''"
  using assms
proof (induction ps arbitrary: acc)
  case Nil
  then show ?case by simp
next
  case (Cons p ps)
  show ?case
  proof (cases p)
    case (Inl e')
    with Cons.prems show ?thesis by (simp add: ebind_def)
  next
    case (Inr x)
    show ?thesis
    proof (cases "num_add acc x")
      case (Inl e')
      with Inr Cons.prems(1) num_add_raises show ?thesis by (simp add: ebind_def)
    next
      case (Inr acc')
      with \<open>p = Inr x\<close> Cons.prems have "sum_nums acc' ps = Inl e" by (simp add: ebind_def)
      then show ?thesis using Cons.prems(2) by (intro Cons.IH) auto
    qed
  qed
qed

lemma sum_by_index_raises:
  "sum_by_index a b = Inl e \<Longrightarrow> e = OverflowError ''int too large to convert to float''"
  unfolding sum_by_index_def by (erule sum_nums_raises) (auto dest: num_mul_raises [OF sym])

lemma sum_nums_ints:
  assumes "\<And>p. p \<in> set ps \<Longrightarrow> \<exists>n. p = Inr (NInt n)"
  shows "\<exists>s. sum_nums (NInt acc) ps = Inr (NInt s)"
  using assms
proof (induction ps arbitrary: acc)
  case Nil
  then show ?case by simp
next
  case (Cons p ps)
  then obtain n where "p = Inr (NInt n)" by auto
  with Cons.IH [of "acc + n"] Cons.prems show ?case by (simp add: ebind_def)
qed

lemma sum_nums_no_ints:
  assumes "\<And>p. p \<in> set ps \<Longrightarrow> \<exists>x. p = Inr x \<and> \<not> is_int x"
    and "\<not> is_int acc \<or> acc = NInt 0"
  shows "\<exists>s. sum_nums acc ps = Inr s"
  using assms
proof (induction ps arbitrary: acc)
  case Nil
  then show ?case by simp
next
  case (Cons p ps)
  then obtain x where x: "p = Inr x" "\<not> is_int x" by auto
  from x(2) Cons.prems(2) obtain acc' where acc': "num_add acc x = Inr acc'" "\<not> is_int acc'"
    by (cases acc; cases x) (auto simp: int_to_float_def ebind_def)
  with Cons.IH [of acc'] Cons.prems(1) x show ?case by (simp add: ebind_def)
qed


lemma is_int_cases: "is_int x \<Longrightarrow> \<exists>n. x = NInt n"
  by (cases x) simp_all

lemma num_mul_ints: "is_int x \<Longrightarrow> is_int y \<Longrightarrow> \<exists>n. num_mul x y = Inr (NInt n)"
  by (auto dest!: is_int_cases)

lemma num_mul_no_ints:
  "\<not> is_int x \<Longrightarrow> \<not> is_int y \<Longrightarrow> \<exists>z. num_mul x y = Inr z \<and> \<not> is_int z"
  by (cases x; cases y) simp_all

text \<open>
  C9, as the code has it. \<open>multiply\<close> looks at no length: on two lists of numbers of any
  lengths it does what the indexed sum does on their first \<open>min (length a) (length b)\<close>
  entries, so a caller who breaks the equal-length precondition is not told. It is not
  total on lists of numbers: it raises \<open>OverflowError\<close>, and nothing else, when a product
  or a sum converts an \<^verbatim>\<open>int\<close> too large for a \<^verbatim>\<open>float\<close>. On lists of \<^verbatim>\<open>int\<close>s only,
  and on lists without any \<^verbatim>\<open>int\<close>, it always returns.
\<close>

theorem multiply_unequal_length_truncates:
  "multiply (num_list a) (num_list b) =
     as_value (sum_by_index (take (min (length a) (length b)) a)
                            (take (min (length a) (length b)) b)) \<and>
   (multiply (num_list a) (num_list b) = Inl e \<longrightarrow>
      e = OverflowError ''int too large to convert to float'') \<and>
   (list_all is_int a \<and> list_all is_int b \<longrightarrow>
      (\<exists>s. multiply (num_list a) (num_list b) = Inr (PNum (NInt s)))) \<and>
   (list_all (\<lambda>x. \<not> is_int x) a \<and> list_all (\<lambda>x. \<not> is_int x) b \<longrightarrow>
      (\<exists>s. multiply (num_list a) (num_list b) = Inr (PNum s)))"
proof (intro conjI impI)
  let ?k = "min (length a) (length b)"
  let ?ps = "map (\<lambda>i. num_mul (a ! i) (b ! i)) [0..<?k]"
  have m: "multiply (num_list a) (num_list b) = as_value (sum_nums (NInt 0) ?ps)"
    by (simp only: multiply_nums sum_by_index_take)
  have "map (\<lambda>i. num_mul (take ?k a ! i) (take ?k b ! i)) [0..<length (take ?k a)] = ?ps"
    by (rule map_cong) simp_all
  then show "multiply (num_list a) (num_list b) =
      as_value (sum_by_index (take ?k a) (take ?k b))"
    by (simp only: m sum_by_index_def)
  show "e = OverflowError ''int too large to convert to float''"
    if "multiply (num_list a) (num_list b) = Inl e"
  proof -
    from that have "sum_by_index (take (length b) a) b = Inl e"
      by (simp add: multiply_nums as_value_def split: sum.splits)
    then show ?thesis by (rule sum_by_index_raises)
  qed
  show "\<exists>s. multiply (num_list a) (num_list b) = Inr (PNum (NInt s))"
    if "list_all is_int a \<and> list_all is_int b"
  proof -
    have "\<exists>n. p = Inr (NInt n)" if "p \<in> set ?ps" for p
    proof -
      from that obtain i where i: "i < ?k" "p = num_mul (a ! i) (b ! i)" by auto
      with \<open>list_all is_int a \<and> list_all is_int b\<close> have "is_int (a ! i)" "is_int (b ! i)"
        by (simp_all add: list_all_length)
      with i(2) show ?thesis by (simp add: num_mul_ints)
    qed
    then obtain s where "sum_nums (NInt 0) ?ps = Inr (NInt s)"
      using sum_nums_ints [of ?ps 0] by blast
    then show ?thesis by (simp add: m as_value_def)
  qed
  show "\<exists>s. multiply (num_list a) (num_list b) = Inr (PNum s)"
    if "list_all (\<lambda>x. \<not> is_int x) a \<and> list_all (\<lambda>x. \<not> is_int x) b"
  proof -
    have "\<exists>x. p = Inr x \<and> \<not> is_int x" if "p \<in> set ?ps" for p
    proof -
      from that obtain i where i: "i < ?k" "p = num_mul (a ! i) (b ! i)" by auto
      with \<open>list_all (\<lambda>x. \<not> is_int x) a \<and> list_all (\<lambda>x. \<not> is_int x) b\<close>
      have "\<not> is_int (a ! i)" "\<not> is_int (b ! i)"
        by (simp_all add: list_all_length)
      with i(2) show ?thesis by (simp add: num_mul_no_ints)
    qed
    then obtain s where "sum_nums (NInt 0) ?ps = Inr s"
      using sum_nums_no_ints [of ?ps "NInt 0"] by blast
    then show ?thesis by (simp add: m as_value_def)
  qed
qed

theorem multiply_unequal_length_truncates_witness:
  "multiply (num_list [NInt 1, NInt 2, NInt 3]) (num_list [NInt 4, NInt 5]) = Inr (PNum (NInt 14)) \<and>
   sum_by_index [NInt 1, NInt 2] [NInt 4, NInt 5] = Inr (NInt 14) \<and>
   list_all is_int [NInt 1, NInt 2, NInt 3] \<and> list_all is_int [NInt 4, NInt 5] \<and>
   (\<exists>s. multiply (num_list [NInt 1, NInt 2, NInt 3]) (num_list [NInt 4, NInt 5]) =
      Inr (PNum (NInt s))) \<and>
   list_all (\<lambda>x. \<not> is_int x) [NFloat 1, NFloat 2] \<and> list_all (\<lambda>x. \<not> is_int x) [NFloat 3] \<and>
   (\<exists>s. multiply (num_list [NFloat 1, NFloat 2]) (num_list [NFloat 3]) = Inr (PNum s)) \<and>
   multiply (num_list [NFloat 1, NInt (2 ^ 1024)]) (num_list [NFloat 1, NFloat 1, NFloat 1]) =
     Inl (OverflowError ''int too large to convert to float'')"
proof -
  note T = multiply_unequal_length_truncates
  have s: "sum_by_index [NInt 1, NInt 2] [NInt 4, NInt 5] = Inr (NInt 14)"
    by (simp add: sum_by_index_def upt_conv_Cons ebind_def)
  have c1: "multiply (num_list [NInt 1, NInt 2, NInt 3]) (num_list [NInt 4, NInt 5]) =
      Inr (PNum (NInt 14))"
    using T [of "[NInt 1, NInt 2, NInt 3]" "[NInt 4, NInt 5]", THEN conjunct1]
    by (simp add: s as_value_def)
  have i: "list_all is_int [NInt 1, NInt 2, NInt 3]" "list_all is_int [NInt 4, NInt 5]"
    by simp_all
  have c3: "\<exists>s. multiply (num_list [NInt 1, NInt 2, NInt 3]) (num_list [NInt 4, NInt 5]) =
      Inr (PNum (NInt s))"
    by (rule T [THEN conjunct2, THEN conjunct2, THEN conjunct1, rule_format]) (simp add: i)
  have f: "list_all (\<lambda>x. \<not> is_int x) [NFloat 1, NFloat 2]" "list_all (\<lambda>x. \<not> is_int x) [NFloat 3]"
    by simp_all
  have c4: "\<exists>s. multiply (num_list [NFloat 1, NFloat 2]) (num_list [NFloat 3]) = Inr (PNum s)"
    by (rule T [THEN conjunct2, THEN conjunct2, THEN conjunct2, rule_format]) (simp add: f)
  obtain e where r: "multiply (num_list [NFloat 1, NInt (2 ^ 1024)])
      (num_list [NFloat 1, NFloat 1, NFloat 1]) = Inl e"
    by (simp add: multiply_def num_list_def ebind_def int_to_float_def as_value_def)
  from r T [THEN conjunct2, THEN conjunct1, rule_format, OF r]
  have c2: "multiply (num_list [NFloat 1, NInt (2 ^ 1024)])
      (num_list [NFloat 1, NFloat 1, NFloat 1]) =
      Inl (OverflowError ''int too large to convert to float'')"
    by simp
  from c1 s i c3 f c4 c2 show ?thesis
    by (intro conjI)
qed

text \<open>
  The claim C9 as stated, that \<open>multiply\<close> is total on all pairs of lists of numbers, does
  not hold: \<^verbatim>\<open>multiply([2**1024], [1.0])\<close> raises \<open>OverflowError\<close>.
\<close>

theorem multiply_not_total_counterexample:
  "multiply (num_list [NInt (2 ^ 1024)]) (num_list [NFloat 1]) =
     Inl (OverflowError ''int too large to convert to float'')"
  by (simp add: multiply_def num_list_def ebind_def int_to_float_def as_value_def)

section \<open>What the six checks decide\<close>

lemma all_gen_pure: "all_gen (\<lambda>x. Inr (P x)) xs = Inr (list_all P xs)"
  by (induction xs) (simp_all add: ebind_def)

lemma has_iter_ops:
  assumes "has_iter m"
  shows "py_iter m = Inr (items m)" and "py_len m = Inr (length (items m))"
    and "i < length (items m) \<Longrightarrow> py_getitem m i = Inr (items m ! i)"
  using assms by (cases m; simp)+

lemma check_1_row_iter: "has_iter m \<Longrightarrow> check_1_row m = Inr (items m \<noteq> [])"
  by (simp add: check_1_row_def has_iter_ops ebind_def)

lemma check_2_dims_iter: "has_iter m \<Longrightarrow> check_2_dims m = Inr (list_all has_iter (items m))"
  by (simp add: check_2_dims_def has_iter_ops ebind_def all_gen_pure)

lemma check_1_col_iter:
  "has_iter m \<Longrightarrow> items m \<noteq> [] \<Longrightarrow> list_all has_iter (items m) \<Longrightarrow>
   check_1_col m = Inr (items (hd (items m)) \<noteq> [])"
  by (cases "items m") (simp_all add: check_1_col_def has_iter_ops ebind_def hd_conv_nth)

lemma all_gen_cong:
  "(\<And>x. x \<in> set xs \<Longrightarrow> f x = g x) \<Longrightarrow> all_gen f xs = all_gen g xs"
  by (induction xs) (simp_all add: ebind_def split: sum.splits)

lemma check_same_len_iter:
  assumes "has_iter m" "items m \<noteq> []" "list_all has_iter (items m)"
  shows "check_same_len m =
    Inr (list_all (\<lambda>row. length (items row) = length (items (hd (items m)))) (items m))"
proof -
  have h0: "py_getitem m 0 = Inr (hd (items m))" "has_iter (hd (items m))"
    using assms by (cases "items m"; simp add: has_iter_ops hd_conv_nth)+
  have "all_gen (\<lambda>row. ebind (py_len row) (\<lambda>a. ebind (py_getitem m 0) (\<lambda>row0.
          ebind (py_len row0) (\<lambda>b. Inr (a = b))))) (items m) =
        all_gen (\<lambda>row. Inr (length (items row) = length (items (hd (items m))))) (items m)"
    using assms(3) h0 by (intro all_gen_cong) (simp add: list_all_iff has_iter_ops ebind_def)
  then show ?thesis
    using assms(1) by (simp add: check_same_len_def has_iter_ops ebind_def all_gen_pure)
qed

lemma check_numeric_iter:
  assumes "has_iter m" "list_all has_iter (items m)"
  shows "check_numeric m = Inr (list_all (\<lambda>row. list_all is_numeric (items row)) (items m))"
proof -
  have "all_gen (\<lambda>row. ebind (py_iter row) (\<lambda>entries. all_gen (\<lambda>i. Inr (is_numeric i)) entries))
          (items m) =
        all_gen (\<lambda>row. Inr (list_all is_numeric (items row))) (items m)"
    using assms(2) by (intro all_gen_cong) (simp add: list_all_iff has_iter_ops ebind_def all_gen_pure)
  then show ?thesis
    using assms(1) by (simp add: check_numeric_def has_iter_ops ebind_def all_gen_pure)
qed

lemma numeric_entries: "list_all is_numeric xs \<Longrightarrow> \<exists>ns. xs = map PNum ns"
proof (induction xs)
  case Nil
  then show ?case by simp
next
  case (Cons x xs)
  then obtain ns where "xs = map PNum ns" by auto
  moreover from Cons.prems obtain n where "x = PNum n" by (cases x) simp_all
  ultimately have "x # xs = map PNum (n # ns)" by simp
  then show ?case by (rule exI)
qed

lemma numeric_row:
  assumes "has_iter r" "items r \<noteq> []" "list_all is_numeric (items r)"
  shows "\<exists>ns. r = num_list ns \<and> length ns = length (items r)"
proof (cases r)
  case (PList xs)
  with assms(3) obtain ns where "xs = map PNum ns" using numeric_entries by auto
  with PList show ?thesis by (auto simp: num_list_def)
next
  case (PStr s)
  with assms(2,3) show ?thesis by (cases s) simp_all
qed (use assms in simp_all)

lemma numeric_rows:
  assumes "list_all (\<lambda>r. has_iter r \<and> length (items r) = k \<and> list_all is_numeric (items r)) rs"
    and "0 < k"
  shows "\<exists>rows. rs = map num_list rows \<and> list_all (\<lambda>row. length row = k) rows"
  using assms(1)
proof (induction rs)
  case Nil
  then show ?case by simp
next
  case (Cons r rs)
  then obtain rows where rows: "rs = map num_list rows" "list_all (\<lambda>row. length row = k) rows"
    by auto
  from Cons.prems assms(2) obtain ns where "r = num_list ns" "length ns = k"
    using numeric_row [of r] by auto
  with rows have "r # rs = map num_list (ns # rows) \<and> list_all (\<lambda>row. length row = k) (ns # rows)"
    by simp
  then show ?case by (rule exI)
qed

lemma checks_shape:
  assumes "holds check_1_dim m" "holds check_1_row m" "holds check_2_dims m"
    "holds check_1_col m" "holds check_same_len m" "holds check_numeric m"
  shows "\<exists>rows. m = num_matrix rows \<and> rectangular rows"
proof -
  let ?k = "length (items (hd (items m)))"
  have it: "has_iter m"
    using assms(1) by (simp add: holds_def check_1_dim_def)
  have ne: "items m \<noteq> []"
    using assms(2) it by (simp add: holds_def check_1_row_iter)
  have its: "list_all has_iter (items m)"
    using assms(3) it by (simp add: holds_def check_2_dims_iter)
  have k: "0 < ?k"
    using assms(4) it ne its by (simp add: holds_def check_1_col_iter)
  have len: "list_all (\<lambda>row. length (items row) = ?k) (items m)"
    using assms(5) it ne its by (simp add: holds_def check_same_len_iter)
  have nums: "list_all (\<lambda>row. list_all is_numeric (items row)) (items m)"
    using assms(6) it its by (simp add: holds_def check_numeric_iter)
  have "list_all (\<lambda>r. has_iter r \<and> length (items r) = ?k \<and> list_all is_numeric (items r)) (items m)"
    using its len nums by (simp add: list_all_iff)
  then obtain rows where rows: "items m = map num_list rows" "list_all (\<lambda>row. length row = ?k) rows"
    using numeric_rows [OF _ k] by blast
  have m: "m = PList (items m)"
  proof (cases m)
    case (PStr s)
    with ne nums show ?thesis by (cases s) simp_all
  qed (use it in simp_all)
  from rows ne have "rows \<noteq> []" by auto
  moreover from this rows(2) have "length (hd rows) = ?k" by (cases rows) simp_all
  ultimately have "rectangular rows"
    using rows(2) k by (auto simp: rectangular_def)
  moreover from m rows(1) have "m = num_matrix rows" by (simp add: num_matrix_def)
  ultimately show ?thesis by blast
qed

lemma items_num_list [simp]: "items (num_list ns) = map PNum ns"
  by (simp add: num_list_def)

lemma items_num_matrix [simp]: "items (num_matrix rows) = map num_list rows"
  by (simp add: num_matrix_def)

lemma has_iter_num [simp]: "has_iter (num_list ns)" "has_iter (num_matrix rows)"
  by (simp_all add: num_list_def num_matrix_def)

lemma num_matrix_holds:
  assumes "rectangular rows"
  shows "holds check_1_dim (num_matrix rows)" "holds check_1_row (num_matrix rows)"
    "holds check_2_dims (num_matrix rows)" "holds check_1_col (num_matrix rows)"
    "holds check_same_len (num_matrix rows)" "holds check_numeric (num_matrix rows)"
proof -
  from assms obtain r rs where rows: "rows = r # rs" "r \<noteq> []" "list_all (\<lambda>row. length row = length r) rs"
    by (cases rows) (auto simp: rectangular_def)
  show "holds check_1_dim (num_matrix rows)"
    by (simp add: holds_def check_1_dim_def)
  show "holds check_1_row (num_matrix rows)"
    using rows by (simp add: holds_def check_1_row_iter)
  show "holds check_2_dims (num_matrix rows)"
    by (simp add: holds_def check_2_dims_iter list_all_iff)
  show "holds check_1_col (num_matrix rows)"
    using rows by (simp add: holds_def check_1_col_iter list_all_iff)
  show "holds check_same_len (num_matrix rows)"
    using rows by (simp add: holds_def check_same_len_iter list_all_iff)
  show "holds check_numeric (num_matrix rows)"
    by (simp add: holds_def check_numeric_iter list_all_iff)
qed


lemma run_checks_eq:
  "run_checks checks m1 m2 =
    (if \<not> (has_iter m1 \<and> has_iter m2) then Inl (ValueError ''Must have atleast 1 dim'')
     else if \<not> (items m1 \<noteq> [] \<and> items m2 \<noteq> []) then Inl (ValueError ''Must have atleast 1 row'')
     else if \<not> (list_all has_iter (items m1) \<and> list_all has_iter (items m2))
       then Inl (ValueError ''Must have atleast 2 dims'')
     else if \<not> (items (hd (items m1)) \<noteq> [] \<and> items (hd (items m2)) \<noteq> [])
       then Inl (ValueError ''Must have atleast 1 col'')
     else if \<not> (list_all (\<lambda>row. length (items row) = length (items (hd (items m1)))) (items m1) \<and>
                list_all (\<lambda>row. length (items row) = length (items (hd (items m2)))) (items m2))
       then Inl (ValueError ''Rows must have same len'')
     else if \<not> (list_all (\<lambda>row. list_all is_numeric (items row)) (items m1) \<and>
                list_all (\<lambda>row. list_all is_numeric (items row)) (items m2))
       then Inl (TypeError ''Must contain only numeric data'')
     else Inr ())"
  by (simp add: checks_def ebind_def check_1_dim_def check_1_row_iter check_2_dims_iter
      check_1_col_iter check_same_len_iter check_numeric_iter)


section \<open>The comprehensions and loops\<close>

lemma list_comp_pure:
  "(\<And>x. x \<in> set xs \<Longrightarrow> f x = Inr (g x)) \<Longrightarrow> list_comp f xs = Inr (map g xs)"
  by (induction xs) (simp_all add: ebind_def)

lemma foldl_update_length:
  "length (foldl (\<lambda>xs j. xs[j := h j (xs ! j)]) xs js) = length xs"
  by (induction js arbitrary: xs) simp_all

lemma foldl_update_nth:
  "distinct js \<Longrightarrow> k < length xs \<Longrightarrow>
   foldl (\<lambda>xs j. xs[j := h j (xs ! j)]) xs js ! k = (if k \<in> set js then h k (xs ! k) else xs ! k)"
proof (induction js arbitrary: xs)
  case Nil
  then show ?case by simp
next
  case (Cons j js)
  let ?xs = "xs[j := h j (xs ! j)]"
  from Cons.prems have j: "j \<notin> set js" and d: "distinct js" and k: "k < length ?xs"
    by simp_all
  have "foldl (\<lambda>xs j. xs[j := h j (xs ! j)]) xs (j # js) ! k =
        (if k \<in> set js then h k (?xs ! k) else ?xs ! k)"
    using Cons.IH [OF d k] by simp
  also have "\<dots> = (if k \<in> set (j # js) then h k (xs ! k) else xs ! k)"
    using j Cons.prems(2) by (cases "k = j") auto
  finally show ?case .
qed

lemma foldl_update_all:
  assumes "length xs = n"
  shows "foldl (\<lambda>xs j. xs[j := h j (xs ! j)]) xs [0..<n] = map (\<lambda>j. h j (xs ! j)) [0..<n]"
proof (rule nth_equalityI)
  show "length (foldl (\<lambda>xs j. xs[j := h j (xs ! j)]) xs [0..<n]) =
        length (map (\<lambda>j. h j (xs ! j)) [0..<n])"
    using assms by (simp add: foldl_update_length)
next
  fix k
  assume "k < length (foldl (\<lambda>xs j. xs[j := h j (xs ! j)]) xs [0..<n])"
  then have k: "k < n" using assms by (simp add: foldl_update_length)
  then have "foldl (\<lambda>xs j. xs[j := h j (xs ! j)]) xs [0..<n] ! k = h k (xs ! k)"
    using assms by (subst foldl_update_nth) simp_all
  then show "foldl (\<lambda>xs j. xs[j := h j (xs ! j)]) xs [0..<n] ! k =
        map (\<lambda>j. h j (xs ! j)) [0..<n] ! k"
    using k by simp
qed

lemma foldl_update_row:
  "foldl (\<lambda>res j. res[i := (res ! i)[j := v j]]) res js =
   res[i := foldl (\<lambda>r j. r[j := v j]) (res ! i) js]"
proof (induction js arbitrary: res)
  case Nil
  then show ?case by simp
next
  case (Cons j js)
  show ?case
  proof (cases "i < length res")
    case True
    then show ?thesis by (simp add: Cons.IH)
  next
    case False
    then show ?thesis by (simp add: Cons.IH list_update_beyond)
  qed
qed

lemma fill_matrix:
  "foldl (\<lambda>res i. foldl (\<lambda>res j. res[i := (res ! i)[j := v i j]]) res [0..<m])
     (map (\<lambda>j. replicate m z) [0..<n]) [0..<n] =
   map (\<lambda>i. map (v i) [0..<m]) [0..<n]"
proof -
  have row: "foldl (\<lambda>r j. r[j := v i j]) r [0..<m] = map (v i) [0..<m]" if "length r = m" for i r
    using foldl_update_all [OF that, of "\<lambda>j _. v i j"] by simp
  have "foldl (\<lambda>res i. foldl (\<lambda>res j. res[i := (res ! i)[j := v i j]]) res [0..<m])
          (map (\<lambda>j. replicate m z) [0..<n]) [0..<n] =
        foldl (\<lambda>res i. res[i := foldl (\<lambda>r j. r[j := v i j]) (res ! i) [0..<m]])
          (map (\<lambda>j. replicate m z) [0..<n]) [0..<n]"
    by (simp only: foldl_update_row)
  also have "\<dots> = map (\<lambda>i. foldl (\<lambda>r j. r[j := v i j]) (map (\<lambda>j. replicate m z) [0..<n] ! i) [0..<m])
                  [0..<n]"
    by (rule foldl_update_all) simp
  also have "\<dots> = map (\<lambda>i. map (v i) [0..<m]) [0..<n]"
    by (rule map_cong) (simp_all add: row)
  finally show ?thesis .
qed



lemma list_comp_length: "list_comp f xs = Inr ys \<Longrightarrow> length ys = length xs"
proof (induction xs arbitrary: ys)
  case Nil
  then show ?case by simp
next
  case (Cons x xs)
  then show ?case by (auto simp: ebind_def split: sum.splits)
qed

lemma list_comp_nth:
  "list_comp f xs = Inr ys \<Longrightarrow> i < length xs \<Longrightarrow> f (xs ! i) = Inr (ys ! i)"
proof (induction xs arbitrary: ys i)
  case Nil
  then show ?case by simp
next
  case (Cons x xs)
  then show ?case by (cases i) (auto simp: ebind_def split: sum.splits)
qed

lemma list_comp_map: "list_comp f (map g xs) = list_comp (\<lambda>x. f (g x)) xs"
  by (induction xs) simp_all

lemma for_loop_cong:
  "(\<And>x s. x \<in> set xs \<Longrightarrow> body x s = body' x s) \<Longrightarrow> for_loop xs body s = for_loop xs body' s"
  by (induction xs arbitrary: s) (simp_all add: ebind_def split: sum.splits)

lemma ebind_simps: "ebind (Inl e) f = Inl e" "ebind (Inr x) f = f x"
  by (simp_all add: ebind_def)

lemma for_loop_comp:
  "for_loop js (\<lambda>j s. ebind (f j) (\<lambda>v. Inr (g j v s))) s =
   ebind (list_comp f js) (\<lambda>vs. Inr (foldl (\<lambda>s (j, v). g j v s) s (zip js vs)))"
proof (induction js arbitrary: s)
  case Nil
  then show ?case by (simp add: ebind_def)
next
  case (Cons j js)
  show ?case
  proof (cases "f j")
    case (Inl e)
    then show ?thesis by (simp add: ebind_simps)
  next
    case (Inr v)
    then show ?thesis
      by (cases "list_comp f js") (simp_all add: ebind_simps Cons.IH)
  qed
qed

lemma foldl_zip_upt:
  assumes "length vs = m"
  shows "foldl (\<lambda>s (j, v). g j v s) s (zip [0..<m] vs) = foldl (\<lambda>s j. g j (vs ! j) s) s [0..<m]"
proof -
  have "zip [0..<m] vs = map (\<lambda>j. (j, vs ! j)) [0..<m]"
    using assms by (intro nth_equalityI) simp_all
  then show ?thesis by (simp add: foldl_map)
qed

lemma nested_fill:
  assumes body: "\<And>i j res. i < n \<Longrightarrow> j < m \<Longrightarrow>
     body i j res = ebind (f i j) (\<lambda>v. Inr (res[i := (res ! i)[j := v]]))"
  shows "for_loop [0..<n] (\<lambda>i. for_loop [0..<m] (body i)) (map (\<lambda>j. replicate m z) [0..<n]) =
     list_comp (\<lambda>i. list_comp (f i) [0..<m]) [0..<n]"
proof -
  let ?upd = "\<lambda>i j v res. res[i := (res ! i)[j := v]]"
  let ?row = "\<lambda>i vs res. foldl (\<lambda>res (j, v). ?upd i j v res) res (zip [0..<m] vs)"
  let ?res0 = "map (\<lambda>j. replicate m z) [0..<n]"
  have inner: "for_loop [0..<m] (body i) res =
      ebind (list_comp (f i) [0..<m]) (\<lambda>vs. Inr (?row i vs res))" if "i \<in> set [0..<n]" for i res
  proof -
    have "for_loop [0..<m] (body i) res =
        for_loop [0..<m] (\<lambda>j res. ebind (f i j) (\<lambda>v. Inr (?upd i j v res))) res"
      using that by (intro for_loop_cong) (simp add: body)
    then show ?thesis by (simp only: for_loop_comp)
  qed
  have "for_loop [0..<n] (\<lambda>i. for_loop [0..<m] (body i)) ?res0 =
      for_loop [0..<n]
        (\<lambda>i res. ebind (list_comp (f i) [0..<m]) (\<lambda>vs. Inr (?row i vs res))) ?res0"
    by (rule for_loop_cong) (rule inner)
  also have "\<dots> = ebind (list_comp (\<lambda>i. list_comp (f i) [0..<m]) [0..<n])
      (\<lambda>vss. Inr (foldl (\<lambda>res (i, vs). ?row i vs res) ?res0 (zip [0..<n] vss)))"
    by (rule for_loop_comp)
  also have "\<dots> = list_comp (\<lambda>i. list_comp (f i) [0..<m]) [0..<n]"
  proof (cases "list_comp (\<lambda>i. list_comp (f i) [0..<m]) [0..<n]")
    case (Inl e)
    then show ?thesis by (simp add: ebind_def)
  next
    case (Inr vss)
    have n: "length vss = n"
      using list_comp_length [OF Inr] by simp
    have m: "length (vss ! i) = m" if "i < n" for i
    proof -
      from list_comp_nth [OF Inr, of i] that have "list_comp (f i) [0..<m] = Inr (vss ! i)"
        by simp
      from list_comp_length [OF this] show ?thesis by simp
    qed
    have "foldl (\<lambda>res (i, vs). ?row i vs res) ?res0 (zip [0..<n] vss) =
        foldl (\<lambda>res i. ?row i (vss ! i) res) ?res0 [0..<n]"
      using n by (rule foldl_zip_upt)
    also have "\<dots> = foldl (\<lambda>res i. foldl (\<lambda>res j. ?upd i j (vss ! i ! j) res) res [0..<m])
        ?res0 [0..<n]"
    proof (rule foldl_cong [OF refl refl])
      fix res i
      assume "i \<in> set [0..<n]"
      then have "length (vss ! i) = m" by (simp add: m)
      then show "?row i (vss ! i) res = foldl (\<lambda>res j. ?upd i j (vss ! i ! j) res) res [0..<m]"
        by (rule foldl_zip_upt)
    qed
    also have "\<dots> = map (\<lambda>i. map (\<lambda>j. vss ! i ! j) [0..<m]) [0..<n]"
      by (rule fill_matrix)
    also have "\<dots> = vss"
      using n m by (intro nth_equalityI) (simp_all add: map_nth)
    finally show ?thesis
      by (simp add: Inr ebind_def)
  qed
  finally show ?thesis .
qed

section \<open>matrix_multiply on rectangular tables of numbers\<close>

lemma num_ops:
  "py_len (num_list ns) = Inr (length ns)"
  "py_len (num_matrix rows) = Inr (length rows)"
  "i < length rows \<Longrightarrow> py_getitem (num_matrix rows) i = Inr (num_list (rows ! i))"
  "i < length ns \<Longrightarrow> py_getitem (num_list ns) i = Inr (PNum (ns ! i))"
  "py_iter (num_matrix rows) = Inr (map num_list rows)"
  by (simp_all add: num_list_def num_matrix_def)

lemma transpose_of_num_matrix:
  assumes "rectangular B"
  shows "transpose_of (num_matrix B) =
    Inr (map (\<lambda>j. map PNum (column B j)) [0..<length (hd B)])"
proof -
  from assms have B: "B \<noteq> []"
    by (simp add: rectangular_def)
  have len: "length row = length (hd B)" if "row \<in> set B" for row
    using assms that unfolding rectangular_def list_all_iff by blast
  have inner: "list_comp (\<lambda>row. py_getitem row j) (map num_list B) = Inr (map PNum (column B j))"
    if "j < length (hd B)" for j
  proof -
    have "py_getitem x j = Inr (items x ! j)" if "x \<in> set (map num_list B)" for x
    proof -
      from that obtain row where row: "x = num_list row" "row \<in> set B" by auto
      with len [of row] \<open>j < length (hd B)\<close> have "j < length row" by simp
      with row(1) show ?thesis by (simp add: num_ops)
    qed
    then have "list_comp (\<lambda>row. py_getitem row j) (map num_list B) =
          Inr (map (\<lambda>row. items row ! j) (map num_list B))"
      by (rule list_comp_pure)
    also have "map (\<lambda>row. items row ! j) (map num_list B) = map PNum (column B j)"
    proof -
      have "items (num_list row) ! j = PNum (row ! j)" if "row \<in> set B" for row
      proof -
        from len [OF that] \<open>j < length (hd B)\<close> have "j < length row" by simp
        then show ?thesis by simp
      qed
      then show ?thesis by (simp add: column_def)
    qed
    finally show ?thesis .
  qed
  have "list_comp (\<lambda>i. ebind (py_iter (num_matrix B)) (\<lambda>rows. list_comp (\<lambda>row. py_getitem row i) rows))
          [0..<length (hd B)] =
        Inr (map (\<lambda>j. map PNum (column B j)) [0..<length (hd B)])"
    by (rule list_comp_pure) (simp add: ebind_def inner num_ops)
  moreover from B have "py_getitem (num_matrix B) 0 = Inr (num_list (hd B))"
    by (simp add: num_ops hd_conv_nth)
  ultimately show ?thesis
    by (simp add: transpose_of_def ebind_def num_ops)
qed


lemma store_entry_num_matrix:
  assumes "i < length A" "j < m"
  shows "store_entry (num_matrix A) (map (\<lambda>j. map PNum (column B j)) [0..<m]) i j res =
    ebind (as_value (sum_by_index (take (length B) (A ! i)) (column B j)))
      (\<lambda>v. Inr (res[i := (res ! i)[j := v]]))"
proof -
  have "PList (map (\<lambda>j. map PNum (column B j)) [0..<m] ! j) = num_list (column B j)"
    using assms(2) by (simp add: num_list_def)
  moreover have "length (column B j) = length B"
    by (simp add: column_def)
  ultimately show ?thesis
    using assms(1) by (simp add: store_entry_def ebind_simps num_ops multiply_nums)
qed

lemma list_comp_as_value:
  "list_comp (\<lambda>x. as_value (f x)) xs =
     (case list_comp f xs of Inl e \<Rightarrow> Inl e | Inr ns \<Rightarrow> Inr (map PNum ns))"
  by (induction xs) (simp_all add: ebind_def as_value_def split: sum.splits)

lemma list_comp_rows:
  "list_comp (\<lambda>x. case list_comp (f x) js of Inl e \<Rightarrow> Inl e | Inr ns \<Rightarrow> Inr (map PNum ns)) xs =
     (case list_comp (\<lambda>x. list_comp (f x) js) xs of
        Inl e \<Rightarrow> Inl e | Inr rows \<Rightarrow> Inr (map (map PNum) rows))"
  by (induction xs) (simp_all add: ebind_def split: sum.splits)

lemma matrix_multiply_num_matrix:
  assumes "rectangular A" "rectangular B"
  shows "matrix_multiply (num_matrix A) (num_matrix B) =
    (if length A \<noteq> length (hd B) then Inl (ValueError ''Matrices cannot be multiplied'')
     else case computed_product A B of
            Inl e \<Rightarrow> Inl e
          | Inr rows \<Rightarrow> Inr (num_matrix rows))"
proof -
  let ?m = "length (hd B)"
  let ?T = "map (\<lambda>j. map PNum (column B j)) [0..<?m]"
  let ?e = "\<lambda>row j. sum_by_index (take (length B) row) (column B j)"
  have checks: "run_checks checks (num_matrix A) (num_matrix B) = Inr ()"
    using num_matrix_holds [OF assms(1)] num_matrix_holds [OF assms(2)]
    by (simp add: checks_def holds_def ebind_def)
  from assms(2) have "B \<noteq> []" by (simp add: rectangular_def)
  then have row0: "py_getitem (num_matrix B) 0 = Inr (num_list (hd B))"
    by (simp add: num_ops hd_conv_nth)
  have start: "matrix_multiply (num_matrix A) (num_matrix B) =
    (if length A \<noteq> ?m then Inl (ValueError ''Matrices cannot be multiplied'')
     else ebind
       (for_loop [0..<length A]
          (\<lambda>i. for_loop [0..<?m] (store_entry (num_matrix A) ?T i))
          (map (\<lambda>j. replicate ?m (PNum (NInt 0))) [0..<length A]))
       (\<lambda>resultant_matrix'. Inr (PList (map PList resultant_matrix'))))"
    by (simp add: matrix_multiply_def checks ebind_simps num_ops row0
        transpose_of_num_matrix [OF assms(2)])
  have "for_loop [0..<length A] (\<lambda>i. for_loop [0..<?m] (store_entry (num_matrix A) ?T i))
          (map (\<lambda>j. replicate ?m (PNum (NInt 0))) [0..<length A]) =
        list_comp (\<lambda>i. list_comp (\<lambda>j. as_value (?e (A ! i) j)) [0..<?m]) [0..<length A]"
    by (rule nested_fill) (rule store_entry_num_matrix)
  also have "\<dots> = list_comp (\<lambda>row. list_comp (\<lambda>j. as_value (?e row j)) [0..<?m]) A"
    by (subst (2) map_nth [of A, symmetric]) (simp only: list_comp_map)
  also have "\<dots> = (case computed_product A B of
      Inl e \<Rightarrow> Inl e | Inr rows \<Rightarrow> Inr (map (map PNum) rows))"
    by (simp only: list_comp_as_value list_comp_rows computed_product_def)
  finally have loops: "for_loop [0..<length A]
      (\<lambda>i. for_loop [0..<?m] (store_entry (num_matrix A) ?T i))
      (map (\<lambda>j. replicate ?m (PNum (NInt 0))) [0..<length A]) =
    (case computed_product A B of Inl e \<Rightarrow> Inl e | Inr rows \<Rightarrow> Inr (map (map PNum) rows))" .
  show ?thesis
    unfolding start loops
    by (cases "computed_product A B") (simp_all add: ebind_simps num_matrix_def num_list_def)
qed

lemma list_comp_raises:
  "list_comp f xs = Inl e \<Longrightarrow> \<exists>x\<in>set xs. f x = Inl e"
  by (induction xs) (auto simp: ebind_def split: sum.splits)

lemma computed_product_raises:
  assumes "computed_product A B = Inl e"
  shows "e = OverflowError ''int too large to convert to float''"
proof -
  from assms obtain row where "list_comp (\<lambda>j. sum_by_index (take (length B) row) (column B j))
      [0..<length (hd B)] = Inl e"
    unfolding computed_product_def by (blast dest: list_comp_raises)
  then obtain j where "sum_by_index (take (length B) row) (column B j) = Inl e"
    by (blast dest: list_comp_raises)
  then show ?thesis by (rule sum_by_index_raises)
qed

lemma run_checks_Inl:
  assumes "run_checks checks m1 m2 = Inl e"
  shows "e \<in> {ValueError ''Must have atleast 1 dim'', ValueError ''Must have atleast 1 row'',
     ValueError ''Must have atleast 2 dims'', ValueError ''Must have atleast 1 col'',
     ValueError ''Rows must have same len'', TypeError ''Must contain only numeric data''}"
  using assms unfolding run_checks_eq by (simp split: if_splits)

lemma run_checks_Inr:
  assumes "run_checks checks m1 m2 = Inr u"
  shows "(\<exists>A. m1 = num_matrix A \<and> rectangular A) \<and> (\<exists>B. m2 = num_matrix B \<and> rectangular B)"
proof -
  from assms have
    "holds check_1_dim m1 \<and> holds check_1_row m1 \<and> holds check_2_dims m1 \<and>
     holds check_1_col m1 \<and> holds check_same_len m1 \<and> holds check_numeric m1 \<and>
     holds check_1_dim m2 \<and> holds check_1_row m2 \<and> holds check_2_dims m2 \<and>
     holds check_1_col m2 \<and> holds check_same_len m2 \<and> holds check_numeric m2"
    by (simp add: checks_def ebind_def holds_def split: sum.splits if_splits)
  then show ?thesis
    using checks_shape [of m1] checks_shape [of m2] by simp
qed


text \<open>
  On the values of the model \<open>matrix_multiply\<close> raises one of the seven exceptions of
  its \<^verbatim>\<open>raise\<close> statements or the \<open>OverflowError\<close> of a conversion inside \<open>multiply\<close>.
\<close>

lemma matrix_multiply_raises:
  assumes "matrix_multiply matrix1 matrix2 = Inl e"
  shows "e \<in> {ValueError ''Must have atleast 1 dim'', ValueError ''Must have atleast 1 row'',
     ValueError ''Must have atleast 2 dims'', ValueError ''Must have atleast 1 col'',
     ValueError ''Rows must have same len'', TypeError ''Must contain only numeric data'',
     ValueError ''Matrices cannot be multiplied'',
     OverflowError ''int too large to convert to float''}"
proof (cases "run_checks checks matrix1 matrix2")
  case (Inl e')
  with assms have "e = e'" by (simp add: matrix_multiply_def ebind_def)
  with run_checks_Inl [OF Inl] show ?thesis by auto
next
  case (Inr u)
  then obtain A B where AB: "matrix1 = num_matrix A" "rectangular A" "matrix2 = num_matrix B"
    "rectangular B"
    using run_checks_Inr by blast
  show ?thesis
  proof (cases "length A = length (hd B)")
    case True
    with assms AB have "computed_product A B = Inl e"
      by (simp add: matrix_multiply_num_matrix split: sum.splits)
    from computed_product_raises [OF this] show ?thesis by simp
  next
    case False
    with assms AB show ?thesis by (simp add: matrix_multiply_num_matrix)
  qed
qed


section \<open>The validation of matrix_multiply\<close>

text \<open>Unfolding these evaluates \<open>matrix_multiply\<close> on a concrete input.\<close>

lemmas eval_defs = matrix_multiply_def int_matrix_def num_matrix_def num_list_def checks_def
    check_1_dim_def check_1_row_def check_2_dims_def check_1_col_def check_same_len_def
    check_numeric_def ebind_def transpose_of_def store_entry_def multiply_def upt_conv_Cons
    all_hold_def holds_def fails_def as_value_def






text \<open>
  C5, as the code has it. The six checks are run against \<^verbatim>\<open>matrix2\<close> as well: with a
  rectangular table of numbers as \<^verbatim>\<open>matrix1\<close>, the first check that \<^verbatim>\<open>matrix2\<close> fails
  raises its failure, so a \<^verbatim>\<open>matrix2\<close> that is empty, ragged or not numeric is rejected
  for its own shape or contents.
\<close>

theorem checks_run_against_matrix2:
  assumes "rectangular A"
  shows
  "(fails check_1_dim m2 \<longrightarrow>
      matrix_multiply (num_matrix A) m2 = Inl (ValueError ''Must have atleast 1 dim'')) \<and>
   (all_hold [check_1_dim] m2 \<and> fails check_1_row m2 \<longrightarrow>
      matrix_multiply (num_matrix A) m2 = Inl (ValueError ''Must have atleast 1 row'')) \<and>
   (all_hold [check_1_dim, check_1_row] m2 \<and> fails check_2_dims m2 \<longrightarrow>
      matrix_multiply (num_matrix A) m2 = Inl (ValueError ''Must have atleast 2 dims'')) \<and>
   (all_hold [check_1_dim, check_1_row, check_2_dims] m2 \<and> fails check_1_col m2 \<longrightarrow>
      matrix_multiply (num_matrix A) m2 = Inl (ValueError ''Must have atleast 1 col'')) \<and>
   (all_hold [check_1_dim, check_1_row, check_2_dims, check_1_col] m2 \<and>
    fails check_same_len m2 \<longrightarrow>
      matrix_multiply (num_matrix A) m2 = Inl (ValueError ''Rows must have same len'')) \<and>
   (all_hold [check_1_dim, check_1_row, check_2_dims, check_1_col, check_same_len] m2 \<and>
    fails check_numeric m2 \<longrightarrow>
      matrix_multiply (num_matrix A) m2 = Inl (TypeError ''Must contain only numeric data''))"
  using num_matrix_holds [OF assms]
  by (simp add: matrix_multiply_def checks_def ebind_def all_hold_def holds_def fails_def)


theorem checks_run_against_matrix2_witness:
  "rectangular [[NInt 1]] \<and>
   fails check_1_dim PNone \<and>
   matrix_multiply (num_matrix [[NInt 1]]) PNone = Inl (ValueError ''Must have atleast 1 dim'') \<and>
   fails check_1_row (PList []) \<and>
   matrix_multiply (num_matrix [[NInt 1]]) (PList []) =
     Inl (ValueError ''Must have atleast 1 row'') \<and>
   fails check_2_dims (PList [PNum (NInt 1)]) \<and>
   matrix_multiply (num_matrix [[NInt 1]]) (PList [PNum (NInt 1)]) =
     Inl (ValueError ''Must have atleast 2 dims'') \<and>
   fails check_1_col (PList [PList []]) \<and>
   matrix_multiply (num_matrix [[NInt 1]]) (PList [PList []]) =
     Inl (ValueError ''Must have atleast 1 col'') \<and>
   fails check_same_len (int_matrix [[1, 2], [3]]) \<and>
   matrix_multiply (num_matrix [[NInt 1]]) (int_matrix [[1, 2], [3]]) =
     Inl (ValueError ''Rows must have same len'') \<and>
   fails check_numeric (PList [PList [PStr ''x'']]) \<and>
   matrix_multiply (num_matrix [[NInt 1]]) (PList [PList [PStr ''x'']]) =
     Inl (TypeError ''Must contain only numeric data'')"
proof -
  let ?m1 = "num_matrix [[NInt 1]]"
  have A: "rectangular [[NInt 1]]"
    by (simp add: rectangular_def)
  have 1: "fails check_1_dim PNone"
    by (simp add: eval_defs)
  have 2: "all_hold [check_1_dim] (PList [])" "fails check_1_row (PList [])"
    by (simp_all add: eval_defs)
  have 3: "all_hold [check_1_dim, check_1_row] (PList [PNum (NInt 1)])"
    "fails check_2_dims (PList [PNum (NInt 1)])"
    by (simp_all add: eval_defs)
  have 4: "all_hold [check_1_dim, check_1_row, check_2_dims] (PList [PList []])"
    "fails check_1_col (PList [PList []])"
    by (simp_all add: eval_defs)
  have 5: "all_hold [check_1_dim, check_1_row, check_2_dims, check_1_col] (int_matrix [[1, 2], [3]])"
    "fails check_same_len (int_matrix [[1, 2], [3]])"
    by (simp_all add: eval_defs)
  have 6: "all_hold [check_1_dim, check_1_row, check_2_dims, check_1_col, check_same_len]
      (PList [PList [PStr ''x'']])"
    "fails check_numeric (PList [PList [PStr ''x'']])"
    by (simp_all add: eval_defs)
  note T = checks_run_against_matrix2 [OF A]
  have c1: "matrix_multiply ?m1 PNone = Inl (ValueError ''Must have atleast 1 dim'')"
    by (rule T [THEN conjunct1, rule_format]) (rule 1)
  have c2: "matrix_multiply ?m1 (PList []) = Inl (ValueError ''Must have atleast 1 row'')"
    by (rule T [THEN conjunct2, THEN conjunct1, rule_format]) (simp add: 2)
  have c3: "matrix_multiply ?m1 (PList [PNum (NInt 1)]) =
      Inl (ValueError ''Must have atleast 2 dims'')"
    by (rule T [THEN conjunct2, THEN conjunct2, THEN conjunct1, rule_format]) (simp add: 3)
  have c4: "matrix_multiply ?m1 (PList [PList []]) = Inl (ValueError ''Must have atleast 1 col'')"
    by (rule T [THEN conjunct2, THEN conjunct2, THEN conjunct2, THEN conjunct1, rule_format])
      (simp add: 4)
  have c5: "matrix_multiply ?m1 (int_matrix [[1, 2], [3]]) =
      Inl (ValueError ''Rows must have same len'')"
    by (rule T [THEN conjunct2, THEN conjunct2, THEN conjunct2, THEN conjunct2, THEN conjunct1,
          rule_format]) (simp add: 5)
  have c6: "matrix_multiply ?m1 (PList [PList [PStr ''x'']]) =
      Inl (TypeError ''Must contain only numeric data'')"
    by (rule T [THEN conjunct2, THEN conjunct2, THEN conjunct2, THEN conjunct2, THEN conjunct2,
          rule_format]) (simp add: 6)
  from A 1 2(2) 3(2) 4(2) 5(2) 6(2) c1 c2 c3 c4 c5 c6 show ?thesis
    by (intro conjI)
qed

text \<open>
  The claim C5 as stated, that no structural failure is raised on account of
  \<^verbatim>\<open>matrix2\<close>, does not hold: \<^verbatim>\<open>[[1]]\<close> passes all six checks, and an empty
  \<^verbatim>\<open>matrix2\<close> raises "Must have atleast 1 row".
\<close>

theorem empty_matrix2_counterexample:
  "all_hold [check_1_dim, check_1_row, check_2_dims, check_1_col, check_same_len, check_numeric]
     (int_matrix [[1]]) \<and>
   matrix_multiply (int_matrix [[1]]) (PList []) = Inl (ValueError ''Must have atleast 1 row'')"
  by (simp add: eval_defs)

text \<open>
  C10. The failures of \<open>matrix_multiply\<close> are not of one kind. The list \<open>checks\<close> pairs
  the five structural checks with \<open>ValueError\<close> and the numeric check with \<open>TypeError\<close>.
  When the loop over \<open>checks\<close> raises, \<open>matrix_multiply\<close> raises the same exception, and
  it is one of these six: each message travels with the kind given here, and on the values
  of the model the interpreter raises nothing of its own inside the checks. When the loop
  passes and the number of rows of \<^verbatim>\<open>matrix1\<close> is not the length of the first row of
  \<^verbatim>\<open>matrix2\<close>, the dimension test raises \<open>ValueError\<close>.
\<close>

theorem matrix_multiply_exception_kinds:
  "map (\<lambda>(check, error, message). error message) checks =
     [ValueError ''Must have atleast 1 dim'', ValueError ''Must have atleast 1 row'',
      ValueError ''Must have atleast 2 dims'', ValueError ''Must have atleast 1 col'',
      ValueError ''Rows must have same len'', TypeError ''Must contain only numeric data''] \<and>
   (run_checks checks matrix1 matrix2 = Inl e \<longrightarrow>
      matrix_multiply matrix1 matrix2 = Inl e \<and>
      e \<in> {ValueError ''Must have atleast 1 dim'', ValueError ''Must have atleast 1 row'',
           ValueError ''Must have atleast 2 dims'', ValueError ''Must have atleast 1 col'',
           ValueError ''Rows must have same len'',
           TypeError ''Must contain only numeric data''}) \<and>
   (run_checks checks matrix1 matrix2 = Inr () \<and>
    length (items matrix1) \<noteq> length (items (hd (items matrix2))) \<longrightarrow>
      matrix_multiply matrix1 matrix2 = Inl (ValueError ''Matrices cannot be multiplied''))"
proof (intro conjI impI)
  show "map (\<lambda>(check, error, message). error message) checks =
     [ValueError ''Must have atleast 1 dim'', ValueError ''Must have atleast 1 row'',
      ValueError ''Must have atleast 2 dims'', ValueError ''Must have atleast 1 col'',
      ValueError ''Rows must have same len'', TypeError ''Must contain only numeric data'']"
    by (simp add: checks_def)
next
  assume "run_checks checks matrix1 matrix2 = Inl e"
  then show "matrix_multiply matrix1 matrix2 = Inl e"
    by (simp add: matrix_multiply_def ebind_simps)
next
  assume "run_checks checks matrix1 matrix2 = Inl e"
  then show "e \<in> {ValueError ''Must have atleast 1 dim'', ValueError ''Must have atleast 1 row'',
           ValueError ''Must have atleast 2 dims'', ValueError ''Must have atleast 1 col'',
           ValueError ''Rows must have same len'',
           TypeError ''Must contain only numeric data''}"
    by (rule run_checks_Inl)
next
  assume a: "run_checks checks matrix1 matrix2 = Inr () \<and>
    length (items matrix1) \<noteq> length (items (hd (items matrix2)))"
  then obtain A B where AB: "matrix1 = num_matrix A" "rectangular A" "matrix2 = num_matrix B"
    "rectangular B"
    using run_checks_Inr by blast
  from AB(4) have "B \<noteq> []" by (simp add: rectangular_def)
  then have "items (hd (items matrix2)) = map PNum (hd B)"
    by (simp add: AB(3) hd_map)
  with a AB(1) have "length A \<noteq> length (hd B)" by simp
  with AB show "matrix_multiply matrix1 matrix2 = Inl (ValueError ''Matrices cannot be multiplied'')"
    by (simp add: matrix_multiply_num_matrix)
qed

theorem matrix_multiply_exception_kinds_witness:
  "run_checks checks (int_matrix [[1]]) (PList [PList [PNone]]) =
     Inl (TypeError ''Must contain only numeric data'') \<and>
   matrix_multiply (int_matrix [[1]]) (PList [PList [PNone]]) =
     Inl (TypeError ''Must contain only numeric data'') \<and>
   run_checks checks (int_matrix [[1, 2], [3]]) (int_matrix [[1]]) =
     Inl (ValueError ''Rows must have same len'') \<and>
   matrix_multiply (int_matrix [[1, 2], [3]]) (int_matrix [[1]]) =
     Inl (ValueError ''Rows must have same len'') \<and>
   run_checks checks (int_matrix [[1, 2], [3, 4]]) (int_matrix [[1, 2, 3], [4, 5, 6]]) = Inr () \<and>
   length (items (int_matrix [[1, 2], [3, 4]])) \<noteq>
     length (items (hd (items (int_matrix [[1, 2, 3], [4, 5, 6]])))) \<and>
   matrix_multiply (int_matrix [[1, 2], [3, 4]]) (int_matrix [[1, 2, 3], [4, 5, 6]]) =
     Inl (ValueError ''Matrices cannot be multiplied'')"
proof -
  note T = matrix_multiply_exception_kinds
  have r1: "run_checks checks (int_matrix [[1]]) (PList [PList [PNone]]) =
      Inl (TypeError ''Must contain only numeric data'')"
    by (simp add: eval_defs)
  have r2: "run_checks checks (int_matrix [[1, 2], [3]]) (int_matrix [[1]]) =
      Inl (ValueError ''Rows must have same len'')"
    by (simp add: eval_defs)
  have r3: "run_checks checks (int_matrix [[1, 2], [3, 4]]) (int_matrix [[1, 2, 3], [4, 5, 6]]) =
      Inr ()"
    by (simp add: eval_defs)
  have d3: "length (items (int_matrix [[1, 2], [3, 4]])) \<noteq>
      length (items (hd (items (int_matrix [[1, 2, 3], [4, 5, 6]]))))"
    by (simp add: int_matrix_def)
  have c1: "matrix_multiply (int_matrix [[1]]) (PList [PList [PNone]]) =
      Inl (TypeError ''Must contain only numeric data'')"
    using T [THEN conjunct2, THEN conjunct1, rule_format, OF r1] by (rule conjunct1)
  have c2: "matrix_multiply (int_matrix [[1, 2], [3]]) (int_matrix [[1]]) =
      Inl (ValueError ''Rows must have same len'')"
    using T [THEN conjunct2, THEN conjunct1, rule_format, OF r2] by (rule conjunct1)
  have c3: "matrix_multiply (int_matrix [[1, 2], [3, 4]]) (int_matrix [[1, 2, 3], [4, 5, 6]]) =
      Inl (ValueError ''Matrices cannot be multiplied'')"
    by (rule T [THEN conjunct2, THEN conjunct2, rule_format]) (simp add: r3 d3)
  from r1 c1 r2 c2 r3 d3 c3 show ?thesis
    by (intro conjI)
qed

section \<open>The dimension test of matrix_multiply\<close>

text \<open>
  By \<open>matrix_multiply_num_matrix\<close>, on an \<open>n \<times> k\<close> and a \<open>k' \<times> m\<close> table of numbers the
  function raises "Matrices cannot be multiplied" exactly when \<open>n \<noteq> m\<close>: the test
  compares the number of rows of \<^verbatim>\<open>matrix1\<close> with the number of columns of
  \<^verbatim>\<open>matrix2\<close>, where the docstring's "n x k and k x m" asks for the number of columns of
  \<^verbatim>\<open>matrix1\<close> against the number of rows of \<^verbatim>\<open>matrix2\<close>. The three theorems below
  evaluate the function where this shows.
\<close>

text \<open>
  C1 at \<^verbatim>\<open>matrix1 = [[1, 2]]\<close>, \<^verbatim>\<open>matrix2 = [[3]]\<close>: the inner dimensions are 2 and 1,
  both matrices pass the six checks, and no exception is raised; the function returns
  \<^verbatim>\<open>[[3]]\<close>, the product of the first entries only.
\<close>

theorem inner_mismatch_not_detected:
  "matrix_multiply (int_matrix [[1, 2]]) (int_matrix [[3]]) = Inr (int_matrix [[3]])"
  by (simp add: eval_defs)

text \<open>
  C2 at \<^verbatim>\<open>matrix1 = [[1, 2]]\<close>, \<^verbatim>\<open>matrix2 = [[3, 4], [5, 6]]\<close>: a \<open>1 \<times> 2\<close> and a
  \<open>2 \<times> 2\<close> matrix, whose product is \<^verbatim>\<open>[[13, 16]]\<close>; the function raises "Matrices
  cannot be multiplied".
\<close>

theorem compatible_pair_rejected:
  "matrix_multiply (int_matrix [[1, 2]]) (int_matrix [[3, 4], [5, 6]]) =
     Inl (ValueError ''Matrices cannot be multiplied'')"
  by (simp add: eval_defs)

text \<open>
  C6 at \<^verbatim>\<open>M = [[1, 2]]\<close> and the \<open>2 \<times> 2\<close> identity matrix: the function raises "Matrices
  cannot be multiplied" where the claim has it return \<^verbatim>\<open>M\<close>.
\<close>

theorem identity_product_rejected:
  "matrix_multiply (int_matrix [[1, 2]]) (int_matrix [[1, 0], [0, 1]]) =
     Inl (ValueError ''Matrices cannot be multiplied'')"
  by (simp add: eval_defs)



section \<open>The solver\<close>

lemma length_add_at [simp]: "length (add_at r c v M) = length M"
  by (cases r; cases c) (simp_all add: add_entry_def)

lemma length_stamp: "stamp c e M = Inr M' \<Longrightarrow> length M' = length M"
  by (auto simp: stamp_def Let_def split: sum.splits ElementKind.splits)

lemma length_stamp_all: "stamp_all c es M = Inr M' \<Longrightarrow> length M' = length M"
proof (induction es arbitrary: M)
  case Nil
  then show ?case by simp
next
  case (Cons e es)
  then show ?case by (auto split: sum.splits dest: length_stamp)
qed

lemma generate_eqns_shape:
  assumes "generate_eqns c = Inr c'"
  shows "node_index c' = node_index c" "source_index c' = source_index c"
    "length (matrix c') = length (node_index c) + length (source_index c)"
  using assms
  by (auto simp: generate_eqns_def Let_def split: sum.splits dest: length_stamp_all)

lemma add_node_no_ground: "GND \<notin> fst ` set idx \<Longrightarrow> GND \<notin> fst ` set (add_node n idx)"
  by (auto simp: add_node_def)

lemma assign_nodes_no_ground:
  "GND \<notin> fst ` set idx \<Longrightarrow> GND \<notin> fst ` set (assign_nodes es idx)"
  by (induction es arbitrary: idx) (simp_all add: add_node_no_ground)

lemma length_mat_vec_inverse: "length (mat_vec (mat_inverse G) v) = length G"
  by (simp add: mat_vec_def mat_inverse_def)

lemma solve_built:
  assumes "generate_eqns (assign_indices es) = Inr c"
  shows
    "(det (coefficients c) = 0 \<longrightarrow> solve c = Inl SingularSystemError) \<and>
     (det (coefficients c) \<noteq> 0 \<longrightarrow>
        (\<exists>voltages currents.
           solve c = Inr (voltages, currents) \<and>
           map fst voltages = map fst (assign_nodes es []) \<and>
           GND \<notin> set (map fst voltages) \<and>
           map fst currents = map name (filter (\<lambda>e. kind e = VoltageSource) es) \<and>
           map snd voltages @ map snd currents =
             mat_vec (mat_inverse (coefficients c)) (constants c)))"
proof -
  let ?x = "mat_vec (mat_inverse (coefficients c)) (constants c)"
  let ?nodes = "assign_nodes es []"
  let ?sources = "map name (filter (\<lambda>e. kind e = VoltageSource) es)"
  let ?n = "length ?nodes"
  from generate_eqns_shape [OF assms]
  have nodes: "node_index c = ?nodes"
    and sources: "source_index c = zip ?sources [?n..<?n + length ?sources]"
    and rows: "length (matrix c) = ?n + length (zip ?sources [?n..<?n + length ?sources])"
    by (simp_all add: assign_indices_def Let_def)
  have len: "length ?x = ?n + length ?sources"
    using rows by (simp add: length_mat_vec_inverse coefficients_def)
  have keys: "map fst (source_index c) = ?sources"
    unfolding sources by (rule map_fst_zip) simp
  have solved: "solve c = Inr (zip (map fst ?nodes) (take ?n ?x), zip ?sources (drop ?n ?x))"
    if "det (coefficients c) \<noteq> 0"
    using that by (simp add: solve_def Let_def coefficients_def constants_def nodes keys)
  have v: "map fst (zip (map fst ?nodes) (take ?n ?x)) = map fst ?nodes"
    "map snd (zip (map fst ?nodes) (take ?n ?x)) = take ?n ?x"
    using len by (simp_all add: map_fst_zip map_snd_zip)
  have i: "map fst (zip ?sources (drop ?n ?x)) = ?sources"
    "map snd (zip ?sources (drop ?n ?x)) = drop ?n ?x"
    using len by (simp_all add: map_fst_zip map_snd_zip)
  have g: "GND \<notin> set (map fst ?nodes)"
    using assign_nodes_no_ground [of "[]" es] by simp
  show ?thesis
  proof (intro conjI impI)
    assume "det (coefficients c) = 0"
    then show "solve c = Inl SingularSystemError"
      by (simp add: solve_def Let_def coefficients_def)
  next
    assume "det (coefficients c) \<noteq> 0"
    from solved [OF this] v i g show
      "\<exists>voltages currents.
         solve c = Inr (voltages, currents) \<and>
         map fst voltages = map fst ?nodes \<and>
         GND \<notin> set (map fst voltages) \<and>
         map fst currents = ?sources \<and>
         map snd voltages @ map snd currents = ?x"
      by (intro exI [of _ "zip (map fst ?nodes) (take ?n ?x)"] exI [of _ "zip ?sources (drop ?n ?x)"])
        (simp only: append_take_drop_id simp_thms)
  qed
qed

lemma keys_add_node:
  "fst ` set (add_node n idx) = (if n = GND then fst ` set idx else insert n (fst ` set idx))"
  by (auto simp: add_node_def map_of_eq_None_iff)

lemma keys_assign_nodes:
  "fst ` set (assign_nodes es idx) =
     fst ` set idx \<union> {n. n \<noteq> GND \<and> (\<exists>e\<in>set es. n = terminal_a e \<or> n = terminal_b e)}"
proof (induction es arbitrary: idx)
  case Nil
  then show ?case by simp
next
  case (Cons e es)
  show ?case
    unfolding assign_nodes.simps Cons.IH keys_add_node by auto
qed

lemma lookup_node_known:
  assumes "n = GND \<or> n \<in> fst ` set idx"
  shows "\<exists>i. lookup_node idx n = Inr i"
  using assms by (auto simp: lookup_node_def map_of_eq_None_iff split: option.splits)

lemma stamp_total:
  assumes "terminal_a e = GND \<or> terminal_a e \<in> fst ` set (node_index c)"
    and "terminal_b e = GND \<or> terminal_b e \<in> fst ` set (node_index c)"
  shows "\<exists>M'. stamp c e M = Inr M'"
proof -
  from lookup_node_known [OF assms(1)] obtain a
    where a: "lookup_node (node_index c) (terminal_a e) = Inr a" ..
  from lookup_node_known [OF assms(2)] obtain b
    where b: "lookup_node (node_index c) (terminal_b e) = Inr b" ..
  show ?thesis
    by (cases "kind e") (simp_all add: stamp_def a b Let_def)
qed

lemma stamp_all_total:
  assumes "\<And>e. e \<in> set es \<Longrightarrow>
     (terminal_a e = GND \<or> terminal_a e \<in> fst ` set (node_index c)) \<and>
     (terminal_b e = GND \<or> terminal_b e \<in> fst ` set (node_index c))"
  shows "\<exists>M'. stamp_all c es M = Inr M'"
  using assms
proof (induction es arbitrary: M)
  case Nil
  then show ?case by simp
next
  case (Cons e es)
  from Cons.prems [of e] obtain M1 where "stamp c e M = Inr M1"
    using stamp_total [of e c M] by auto
  moreover from Cons.IH [of M1] Cons.prems obtain M2 where "stamp_all c es M1 = Inr M2"
    by auto
  ultimately show ?case by simp
qed

lemma generate_eqns_total: "\<exists>c. generate_eqns (assign_indices es) = Inr c"
proof -
  let ?c = "assign_indices es"
  have nodes: "node_index ?c = assign_nodes es []"
    by (simp add: assign_indices_def Let_def)
  have "(terminal_a e = GND \<or> terminal_a e \<in> fst ` set (node_index ?c)) \<and>
        (terminal_b e = GND \<or> terminal_b e \<in> fst ` set (node_index ?c))"
    if "e \<in> set es" for e
    unfolding nodes keys_assign_nodes using that by auto
  then obtain M where "stamp_all ?c es (replicate (length (node_index ?c) + length (source_index ?c))
      (replicate (Suc (length (node_index ?c) + length (source_index ?c))) 0)) = Inr M"
    using stamp_all_total [of es ?c] by blast
  moreover have "elements ?c = es"
    by (simp add: assign_indices_def Let_def)
  ultimately show ?thesis
    by (simp add: generate_eqns_def Let_def)
qed

text \<open>
  C8. For the circuit assembled from any element list (assembling never meets an
  undefined node), \<open>solve\<close> first tests the determinant of the coefficient sub-matrix.
  When it is zero the result is \<open>SingularSystemError\<close> and nothing else. Otherwise the
  result is a pair of mappings: the voltages are keyed by the nodes in index order, ground
  not among them, the currents by the voltage sources in branch-index order, and the
  voltages followed by the currents are the entries of \<open>x = G\<inverse> I\<close>.
\<close>

theorem solve_contract:
  "\<exists>c. generate_eqns (assign_indices es) = Inr c \<and>
     (det (coefficients c) = 0 \<longrightarrow> solve c = Inl SingularSystemError) \<and>
     (det (coefficients c) \<noteq> 0 \<longrightarrow>
        (\<exists>voltages currents.
           solve c = Inr (voltages, currents) \<and>
           map fst voltages = map fst (assign_nodes es []) \<and>
           GND \<notin> set (map fst voltages) \<and>
           map fst currents = map name (filter (\<lambda>e. kind e = VoltageSource) es) \<and>
           map snd voltages @ map snd currents =
             mat_vec (mat_inverse (coefficients c)) (constants c)))"
proof -
  from generate_eqns_total obtain c where c: "generate_eqns (assign_indices es) = Inr c" ..
  from c solve_built [OF c] show ?thesis by blast
qed

theorem solve_contract_witness:
  "generate_eqns (assign_indices scenario_A) = Inr built_A \<and>
   det (coefficients built_A) = - (1 / 2) \<and>
   solve built_A = Inr ([(''n1'', 10), (''n2'', 8)], [(''Vs'', - 1)]) \<and>
   mat_vec (mat_inverse (coefficients built_A)) (constants built_A) = [10, 8, - 1] \<and>
   mat_vec (coefficients built_A) [10, 8, - 1] = constants built_A \<and>
   generate_eqns (assign_indices scenario_C) = Inr built_C \<and>
   det (coefficients built_C) = 0 \<and>
   solve built_C = Inl SingularSystemError"
proof -
  have A: "generate_eqns (assign_indices scenario_A) = Inr built_A"
    by code_simp
  have dA: "det (coefficients built_A) = - (1 / 2)"
    by code_simp
  have C: "generate_eqns (assign_indices scenario_C) = Inr built_C"
    by code_simp
  have dC: "det (coefficients built_C) = 0"
    by code_simp
  from solve_contract [of scenario_A] A dA
  obtain voltages currents where s: "solve built_A = Inr (voltages, currents)"
    and k: "map fst voltages = map fst (assign_nodes scenario_A [])"
      "map fst currents = map name (filter (\<lambda>e. kind e = VoltageSource) scenario_A)"
    and x: "map snd voltages @ map snd currents =
      mat_vec (mat_inverse (coefficients built_A)) (constants built_A)"
    by auto
  have xA: "mat_vec (mat_inverse (coefficients built_A)) (constants built_A) = [10, 8, - 1]"
    by code_simp
  have GA: "mat_vec (coefficients built_A) [10, 8, - 1] = constants built_A"
    by code_simp
  have kv: "map fst voltages = [''n1'', ''n2'']" and kc: "map fst currents = [''Vs'']"
    using k by (simp_all add: scenario_A_def add_node_def GND_def)
  have "length (map fst voltages) = 2" "length (map fst currents) = 1"
    unfolding kv kc by simp_all
  then have "length (map snd voltages) = 2" "length (map snd currents) = 1"
    by simp_all
  note n = this
  have "map snd voltages = take 2 (map snd voltages @ map snd currents)"
    "map snd currents = drop 2 (map snd voltages @ map snd currents)"
    using n(1) by simp_all
  then have "map snd voltages = [10, 8]" "map snd currents = [- 1]"
    unfolding x xA by simp_all
  with kv kc have "voltages = zip [''n1'', ''n2''] [10, 8]" "currents = zip [''Vs''] [- 1]"
    by (metis zip_map_fst_snd)+
  with s have "solve built_A = Inr ([(''n1'', 10), (''n2'', 8)], [(''Vs'', - 1)])"
    by simp
  moreover from solve_contract [of scenario_C] C dC
  have "solve built_C = Inl SingularSystemError"
    by auto
  ultimately show ?thesis
    using A dA C dC xA GA by (intro conjI)
qed

text \<open>
  C7. Scenario A, \<^verbatim>\<open>Vs n1 GND dc 10; Is n2 GND dc 1; R1 n1 n2 2\<close>: the node voltages are
  \<open>n1 = 10\<close> and \<open>n2 = 8\<close>, and the current through \<open>Vs\<close> is \<open>-1\<close>.
\<close>

theorem scenario_A_solution:
  "simulate scenario_A = Inr ([(''n1'', 10), (''n2'', 8)], [(''Vs'', - 1)])"
  by code_simp

end
